theory Spec2Isabelle
  imports Complex_Main
begin

section \<open>JavaScript values as the component sees them\<close>

text \<open>
  The component \<^verbatim>\<open>PredictDemand\<close> (PredictDemand.jsx) exchanges JSON with the
  forecasting endpoint. A value is one of JavaScript's: \<open>undefined\<close>, \<open>null\<close>, a boolean,
  a number, a string, an array or a plain object. An object is the list of its own
  properties in enumeration order, each key once. Numbers are kept as exact rationals:
  the literals of the source (\<open>0.95\<close>, \<open>0.05\<close>, \<open>10.0\<close>) are decimal fractions, and the
  component never does arithmetic on a number except inside the formatting expressions of
  the metric tiles, which are taken as parameters below.
\<close>

datatype jsval =
    JUndefined
  | JNull
  | JBool bool
  | JNum rat
  | JStr string
  | JArr "jsval list"
  | JObj "(string \<times> jsval) list"

text \<open>Exceptions the component can meet: only their kind matters to control flow.\<close>

datatype js_error =
    TypeError string    \<comment> \<open>reading the named property of \<open>null\<close> or \<open>undefined\<close>,
                            or calling the named method where there is none\<close>

text \<open>
  \<open>v.name\<close> for the property names the component reads (\<open>status\<close>, \<open>message\<close>,
  \<open>data\<close>, \<open>date\<close>, \<open>actual\<close>, ...): none of them is inherited from a prototype, so on
  an object the own property decides, on any other value but \<open>null\<close> and \<open>undefined\<close>
  the result is \<open>undefined\<close>, and on \<open>null\<close> and \<open>undefined\<close> the read throws.
\<close>

fun get_prop :: "jsval \<Rightarrow> string \<Rightarrow> js_error + jsval" where
  "get_prop JUndefined name = Inl (TypeError name)"
| "get_prop JNull name = Inl (TypeError name)"
| "get_prop (JObj props) name =
     (case map_of props name of None \<Rightarrow> Inr JUndefined | Some v \<Rightarrow> Inr v)"
| "get_prop v name = Inr JUndefined"

text \<open>JavaScript's ToBoolean, as \<open>&&\<close>, \<open>||\<close>, \<open>!\<close> and \<open>?:\<close> apply it.\<close>

fun truthy :: "jsval \<Rightarrow> bool" where
  "truthy JUndefined = False"
| "truthy JNull = False"
| "truthy (JBool b) = b"
| "truthy (JNum q) = (q \<noteq> 0)"
| "truthy (JStr s) = (s \<noteq> [])"
| "truthy (JArr xs) = True"
| "truthy (JObj props) = True"

section \<open>Component state\<close>

text \<open>The six checkboxes the component renders, \<^verbatim>\<open>AVAILABLE_EXTRA_VARS\<close>.\<close>

definition AVAILABLE_EXTRA_VARS :: "string list" where
  "AVAILABLE_EXTRA_VARS =
     [''age_60_69_ratio'', ''total_population'', ''age_60_69'',
      ''age_70_79'', ''age_80_84'', ''age_85_plus'']"

text \<open>
  The \<^verbatim>\<open>useState\<close> cells of the component. \<open>error\<close> is \<open>null\<close> (\<open>None\<close>) or the
  message string; \<open>result\<close> is \<open>null\<close> or whatever \<open>data.data\<close> was.
\<close>

record component_state =
  selectedExtraVars :: "string list"
  growth :: string
  yearlySeasonality :: bool
  seasonalityMode :: string
  changepointPriorScale :: rat
  seasonalityPriorScale :: rat
  regressorPriorScale :: rat
  loading :: bool
  error :: "string option"
  result :: jsval
  tabValue :: nat

definition initial_state :: component_state where
  "initial_state =
     \<lparr> selectedExtraVars = [],
       growth = ''linear'',
       yearlySeasonality = True,
       seasonalityMode = ''additive'',
       changepointPriorScale = 5 / 100,
       seasonalityPriorScale = 10,
       regressorPriorScale = 5 / 100,
       loading = False,
       error = None,
       result = JNull,
       tabValue = 0 \<rparr>"

subsection \<open>The checkbox handler\<close>

text \<open>
  \<^verbatim>\<open>prev.includes(varName) ? prev.filter(v => v !== varName) : [...prev, varName]\<close>
\<close>

definition toggle :: "string \<Rightarrow> string list \<Rightarrow> string list" where
  "toggle varName prev =
     (if varName \<in> set prev then filter (\<lambda>v. v \<noteq> varName) prev else prev @ [varName])"

definition handleExtraVarChange :: "string \<Rightarrow> component_state \<Rightarrow> component_state" where
  "handleExtraVarChange varName st =
     st\<lparr>selectedExtraVars := toggle varName (selectedExtraVars st)\<rparr>"

section \<open>The request\<close>

text \<open>
  The object handed to \<^verbatim>\<open>JSON.stringify\<close> in \<^verbatim>\<open>fetchPrediction\<close>, in the order
  the source writes its properties. None of the values is \<open>undefined\<close>, so the serialised
  body has the same keys in the same order.
\<close>

definition request_body :: "component_state \<Rightarrow> jsval" where
  "request_body st =
     JObj [(''extra_vars'', JArr (map JStr (selectedExtraVars st))),
           (''growth'', JStr (growth st)),
           (''yearly_seasonality'', JBool (yearlySeasonality st)),
           (''weekly_seasonality'', JBool False),
           (''daily_seasonality'', JBool False),
           (''seasonality_mode'', JStr (seasonalityMode st)),
           (''changepoint_prior_scale'', JNum (changepointPriorScale st)),
           (''seasonality_prior_scale'', JNum (seasonalityPriorScale st)),
           (''interval_width'', JNum (95 / 100)),
           (''regressor_prior_scale'', JNum (regressorPriorScale st)),
           (''regressor_mode'', JStr (seasonalityMode st))]"

text \<open>The property names of a value, as \<^verbatim>\<open>Object.keys\<close> lists them.\<close>

fun keys_of :: "jsval \<Rightarrow> string list" where
  "keys_of (JObj props) = map fst props"
| "keys_of v = []"

text \<open>The eight field names of the request contract of the specification.\<close>

definition contract_request_fields :: "string list" where
  "contract_request_fields =
     [''extra_vars'', ''growth'', ''yearly_seasonality'', ''seasonality_mode'',
      ''changepoint_prior_scale'', ''seasonality_prior_scale'', ''interval_width'',
      ''regressor_prior_scale'']"

section \<open>The response and \<^verbatim>\<open>fetchPrediction\<close>\<close>

text \<open>
  What the model leaves to the JavaScript engine: the text of a number
  (\<^verbatim>\<open>String(q)\<close>), of \<^verbatim>\<open>q.toFixed(d)\<close> and of \<^verbatim>\<open>(v * 100).toFixed(d)\<close>, which
  are floating-point formatting, and the message of the TypeError thrown when a property of
  \<open>null\<close> or \<open>undefined\<close> is read or a missing method is called.
\<close>

record engine =
  number_text :: "rat \<Rightarrow> string"
  fixed_text :: "rat \<Rightarrow> nat \<Rightarrow> string"
  percent_text :: "jsval \<Rightarrow> nat \<Rightarrow> string"
  type_error_message :: "string \<Rightarrow> string"

fun error_message :: "engine \<Rightarrow> js_error \<Rightarrow> string" where
  "error_message eng (TypeError name) = type_error_message eng name"

text \<open>A non-negative integer in decimal, as a template literal prints \<^verbatim>\<open>response.status\<close>.\<close>

definition digit_char :: "nat \<Rightarrow> char" where
  "digit_char d = char_of (48 + d)"

function decimal :: "nat \<Rightarrow> string" where
  "decimal n = (if n < 10 then [digit_char n] else decimal (n div 10) @ [digit_char (n mod 10)])"
  by pat_completeness auto
termination
  by (relation "measure id") auto

text \<open>\<^verbatim>\<open>xs.join(sep)\<close> on strings.\<close>

fun join :: "string \<Rightarrow> string list \<Rightarrow> string" where
  "join sep [] = []"
| "join sep [s] = s"
| "join sep (s # t # ts) = s @ sep @ join sep (t # ts)"

text \<open>
  JavaScript's ToString, which \<^verbatim>\<open>new Error(x)\<close> applies to its argument: an array
  joins its elements with commas (\<open>null\<close> and \<open>undefined\<close> elements as the empty string),
  a plain object is \<^verbatim>\<open>[object Object]\<close>.
\<close>

fun to_String :: "engine \<Rightarrow> jsval \<Rightarrow> string" where
  "to_String eng JUndefined = ''undefined''"
| "to_String eng JNull = ''null''"
| "to_String eng (JBool b) = (if b then ''true'' else ''false'')"
| "to_String eng (JNum q) = number_text eng q"
| "to_String eng (JStr s) = s"
| "to_String eng (JArr xs) =
     join '','' (map (\<lambda>x. if x = JNull \<or> x = JUndefined then [] else to_String eng x) xs)"
| "to_String eng (JObj props) = ''[object Object]''"

text \<open>
  What \<^verbatim>\<open>await fetch(...)\<close> and \<^verbatim>\<open>await response.json()\<close> can give:
  \<^verbatim>\<open>fetch\<close> rejects with an error (its message is kept) or resolves to a response with
  a status code; \<^verbatim>\<open>response.json()\<close> rejects when the body is not JSON (the message
  of the SyntaxError is kept) or resolves to the parsed value. \<^verbatim>\<open>response.ok\<close> is
  true for the status codes 200 to 299.
\<close>

datatype body = Unparsable string | Parsed jsval

record response =
  status :: nat
  json :: body

datatype fetch_outcome = Rejected string | Responded response

definition ok :: "response \<Rightarrow> bool" where
  "ok r = (200 \<le> status r \<and> status r \<le> 299)"

text \<open>\<^verbatim>\<open>new Error(msg || fallback).message\<close>\<close>

definition message_or :: "engine \<Rightarrow> jsval \<Rightarrow> string \<Rightarrow> string" where
  "message_or eng msg fallback = (if truthy msg then to_String eng msg else fallback)"

text \<open>
  The \<^verbatim>\<open>try\<close> block of \<^verbatim>\<open>fetchPrediction\<close>: \<open>Inl\<close> is the \<^verbatim>\<open>message\<close> of
  whatever was thrown, \<open>Inr\<close> the value passed to \<^verbatim>\<open>setResult\<close>.
\<close>

definition fetch_try :: "engine \<Rightarrow> fetch_outcome \<Rightarrow> string + jsval" where
  "fetch_try eng outcome =
     (case outcome of
        Rejected m \<Rightarrow> Inl m
      | Responded r \<Rightarrow>
          if \<not> ok r then
            (case json r of
               Unparsable m \<Rightarrow> Inl m
             | Parsed errorData \<Rightarrow>
                 (case get_prop errorData ''message'' of
                    Inl e \<Rightarrow> Inl (error_message eng e)
                  | Inr msg \<Rightarrow>
                      Inl (message_or eng msg (''HTTP error! status: '' @ decimal (status r)))))
          else
            (case json r of
               Unparsable m \<Rightarrow> Inl m
             | Parsed data \<Rightarrow>
                 (case get_prop data ''status'' of
                    Inl e \<Rightarrow> Inl (error_message eng e)
                  | Inr s \<Rightarrow>
                      if s = JStr ''success'' then
                        (case get_prop data ''data'' of
                           Inl e \<Rightarrow> Inl (error_message eng e)
                         | Inr d \<Rightarrow> Inr d)
                      else
                        (case get_prop data ''message'' of
                           Inl e \<Rightarrow> Inl (error_message eng e)
                         | Inr msg \<Rightarrow> Inl (message_or eng msg ''Prediction failed'')))))"

text \<open>
  \<^verbatim>\<open>fetchPrediction\<close>, from the click to the end of \<^verbatim>\<open>finally\<close>: the three
  resets, then either \<^verbatim>\<open>setResult\<close> or \<^verbatim>\<open>setError\<close>, then \<^verbatim>\<open>setLoading(false)\<close>.
\<close>

definition fetchPrediction :: "engine \<Rightarrow> fetch_outcome \<Rightarrow> component_state \<Rightarrow> component_state" where
  "fetchPrediction eng outcome st =
     (let st1 = st\<lparr>loading := True, error := None, result := JNull\<rparr> in
      case fetch_try eng outcome of
        Inl m \<Rightarrow> st1\<lparr>error := Some m, loading := False\<rparr>
      | Inr d \<Rightarrow> st1\<lparr>result := d, loading := False\<rparr>)"

text \<open>
  What the page shows of the two cells:
  \<^verbatim>\<open>{error && (<Alert severity="error">{error}</Alert>)}\<close> shows the error unless it
  is \<open>null\<close> or the empty string, and \<^verbatim>\<open>{result && (...)}\<close> shows the results
  block for a truthy result only.
\<close>

definition displayed_error :: "component_state \<Rightarrow> string option" where
  "displayed_error st =
     (case error st of None \<Rightarrow> None | Some m \<Rightarrow> if m = [] then None else Some m)"

definition results_shown :: "component_state \<Rightarrow> bool" where
  "results_shown st = truthy (result st)"

text \<open>The status field of a response body, for stating what a failure response is.\<close>

definition body_status :: "response \<Rightarrow> jsval option" where
  "body_status r =
     (case json r of
        Unparsable m \<Rightarrow> None
      | Parsed data \<Rightarrow> (case get_prop data ''status'' of Inl e \<Rightarrow> None | Inr s \<Rightarrow> Some s))"

text \<open>An engine to evaluate examples with.\<close>

definition sample_engine :: engine where
  "sample_engine =
     \<lparr> number_text = (\<lambda>q. ''<number>''),
       fixed_text = (\<lambda>q d. ''<fixed>''),
       percent_text = (\<lambda>v d. ''<percent>''),
       type_error_message = (\<lambda>name. ''Cannot read properties of undefined (reading '' @ name @ '')'') \<rparr>"

subsection \<open>User events\<close>

text \<open>
  What the user can do to the component: tick or untick one of the rendered checkboxes,
  choose from the two selects, type into the three number fields
  (\<^verbatim>\<open>parseFloat(e.target.value) || default\<close>; \<open>None\<close> is \<^verbatim>\<open>NaN\<close>), tick
  the seasonality checkbox, change tab, and press the button, with what the network then
  answers.
\<close>

datatype event =
    ToggleExtraVar string
  | SetGrowth string
  | SetSeasonalityMode string
  | TypeChangepointPriorScale "rat option"
  | TypeSeasonalityPriorScale "rat option"
  | TypeRegressorPriorScale "rat option"
  | SetYearlySeasonality bool
  | SetTabValue nat
  | StartPrediction fetch_outcome

definition number_or :: "rat option \<Rightarrow> rat \<Rightarrow> rat" where
  "number_or parsed dflt = (case parsed of None \<Rightarrow> dflt | Some q \<Rightarrow> if q = 0 then dflt else q)"

fun handle :: "engine \<Rightarrow> event \<Rightarrow> component_state \<Rightarrow> component_state" where
  "handle eng (ToggleExtraVar v) st = handleExtraVarChange v st"
| "handle eng (SetGrowth g) st = st\<lparr>growth := g\<rparr>"
| "handle eng (SetSeasonalityMode m) st = st\<lparr>seasonalityMode := m\<rparr>"
| "handle eng (TypeChangepointPriorScale p) st = st\<lparr>changepointPriorScale := number_or p (5 / 100)\<rparr>"
| "handle eng (TypeSeasonalityPriorScale p) st = st\<lparr>seasonalityPriorScale := number_or p 10\<rparr>"
| "handle eng (TypeRegressorPriorScale p) st = st\<lparr>regressorPriorScale := number_or p (5 / 100)\<rparr>"
| "handle eng (SetYearlySeasonality b) st = st\<lparr>yearlySeasonality := b\<rparr>"
| "handle eng (SetTabValue n) st = st\<lparr>tabValue := n\<rparr>"
| "handle eng (StartPrediction outcome) st = fetchPrediction eng outcome st"

text \<open>
  The events the rendered page can produce: a checkbox exists only for the names of
  \<^verbatim>\<open>AVAILABLE_EXTRA_VARS\<close>, and a select offers only its menu items.
\<close>

fun offered :: "event \<Rightarrow> bool" where
  "offered (ToggleExtraVar v) = (v \<in> set AVAILABLE_EXTRA_VARS)"
| "offered (SetGrowth g) = (g \<in> {''linear'', ''logistic''})"
| "offered (SetSeasonalityMode m) = (m \<in> {''additive'', ''multiplicative''})"
| "offered e = True"

fun run :: "engine \<Rightarrow> event list \<Rightarrow> component_state \<Rightarrow> component_state" where
  "run eng [] st = st"
| "run eng (e # es) st = run eng es (handle eng e st)"

text \<open>Three failure responses to evaluate examples with.\<close>

definition plain_failure :: response where
  "plain_failure = \<lparr>status = 200, json = Parsed (JObj [(''status'', JStr ''error'')])\<rparr>"

definition refused :: response where
  "refused =
     \<lparr>status = 400,
      json = Parsed (JObj [(''status'', JStr ''error''), (''message'', JStr ''bad growth'')])\<rparr>"

definition unavailable :: response where
  "unavailable = \<lparr>status = 503, json = Parsed (JObj [])\<rparr>"

section \<open>What the component renders from a result\<close>

text \<open>Sequencing of computations that may throw.\<close>

definition and_then :: "js_error + 'a \<Rightarrow> ('a \<Rightarrow> js_error + 'b) \<Rightarrow> js_error + 'b" where
  "and_then r f = (case r of Inl e \<Rightarrow> Inl e | Inr x \<Rightarrow> f x)"

fun traverse :: "('a \<Rightarrow> js_error + 'b) \<Rightarrow> 'a list \<Rightarrow> js_error + 'b list" where
  "traverse f [] = Inr []"
| "traverse f (x # xs) =
     and_then (f x) (\<lambda>y. and_then (traverse f xs) (\<lambda>ys. Inr (y # ys)))"

text \<open>
  \<^verbatim>\<open>v.map(f)\<close>: only an array has the method; on anything else the call throws.
\<close>

fun array_map :: "(jsval \<Rightarrow> js_error + 'b) \<Rightarrow> jsval \<Rightarrow> js_error + 'b list" where
  "array_map f (JArr xs) = traverse f xs"
| "array_map f v = Inl (TypeError ''map'')"

text \<open>\<^verbatim>\<open>item => ({ x: item.xname, y: item.yname })\<close>, a chart point.\<close>

type_synonym point = "jsval \<times> jsval"

definition xy :: "string \<Rightarrow> string \<Rightarrow> jsval \<Rightarrow> js_error + point" where
  "xy xname yname item =
     and_then (get_prop item xname) (\<lambda>x. and_then (get_prop item yname) (\<lambda>y. Inr (x, y)))"

text \<open>A chart series: its \<open>id\<close> and its points (the colour is the theme's).\<close>

type_synonym series = "string \<times> point list"

definition prepareForecastChartData :: "jsval \<Rightarrow> js_error + series list" where
  "prepareForecastChartData res =
     (if \<not> truthy res then Inr []
      else
        and_then (get_prop res ''forecast_data'') (\<lambda>forecast_data.
        and_then (get_prop res ''historical_actual'') (\<lambda>historical_actual.
        and_then (array_map (xy ''date'' ''actual'') historical_actual) (\<lambda>actualData.
        and_then (array_map (xy ''date'' ''predicted'') forecast_data) (\<lambda>predictedData.
        Inr [(''Actual'', actualData), (''Predicted'', predictedData)])))))"

definition prepareComponentChartData :: "string \<Rightarrow> jsval \<Rightarrow> js_error + series list" where
  "prepareComponentChartData componentName res =
     (if \<not> truthy res then Inr []
      else
        and_then (get_prop res ''components'') (\<lambda>components.
        if \<not> truthy components then Inr []
        else
          and_then (get_prop components componentName) (\<lambda>componentData.
          if \<not> truthy componentData then Inr []
          else
            and_then (array_map (xy ''date'' ''value'') componentData) (\<lambda>points.
            Inr [(componentName, points)]))))"

text \<open>
  \<^verbatim>\<open>ciData\<close>: \<open>null\<close> without a result, else the upper and the lower line of the
  confidence band.
\<close>

definition ciData :: "jsval \<Rightarrow> js_error + (point list \<times> point list) option" where
  "ciData res =
     (if \<not> truthy res then Inr None
      else
        and_then (get_prop res ''forecast_data'') (\<lambda>forecast_data.
        and_then (array_map (xy ''date'' ''upper'') forecast_data) (\<lambda>upperData.
        and_then (array_map (xy ''date'' ''lower'') forecast_data) (\<lambda>lowerData.
        Inr (Some (upperData, lowerData))))))"

text \<open>
  The four tiles of the cross-validation panel, label and text, in the order of the page.
  \<^verbatim>\<open>v.toFixed(d)\<close> exists on numbers only.
\<close>

fun toFixed :: "engine \<Rightarrow> jsval \<Rightarrow> nat \<Rightarrow> js_error + string" where
  "toFixed eng (JNum q) d = Inr (fixed_text eng q d)"
| "toFixed eng v d = Inl (TypeError ''toFixed'')"

definition coverage_text :: "engine \<Rightarrow> jsval \<Rightarrow> string" where
  "coverage_text eng coverage =
     (if truthy coverage then percent_text eng coverage 1 @ ''%'' else ''N/A'')"

definition cv_metric :: "jsval \<Rightarrow> string \<Rightarrow> js_error + jsval" where
  "cv_metric res name = and_then (get_prop res ''cv_metrics'') (\<lambda>cv. get_prop cv name)"

definition metric_tiles :: "engine \<Rightarrow> jsval \<Rightarrow> js_error + (string \<times> string) list" where
  "metric_tiles eng res =
     and_then (cv_metric res ''mape'') (\<lambda>mape.
     and_then (cv_metric res ''mae'') (\<lambda>mae.
     and_then (toFixed eng mae 2) (\<lambda>mae_text.
     and_then (cv_metric res ''rmse'') (\<lambda>rmse.
     and_then (toFixed eng rmse 2) (\<lambda>rmse_text.
     and_then (cv_metric res ''coverage'') (\<lambda>coverage.
     Inr [(''MAPE'', percent_text eng mape 2 @ ''%''),
          (''MAE'', mae_text),
          (''RMSE'', rmse_text),
          (''Coverage'', coverage_text eng coverage)]))))))"

text \<open>The text under a label in the panel, when the panel rendered.\<close>

definition tile_text :: "string \<Rightarrow> js_error + (string \<times> string) list \<Rightarrow> string option" where
  "tile_text label panel = (case panel of Inl e \<Rightarrow> None | Inr tiles \<Rightarrow> map_of tiles label)"

text \<open>
  The tab bar: three fixed tabs, and
  \<^verbatim>\<open>{result.components.extra_regressors && <Tab label="Extra Regressors" />}\<close>.
\<close>

definition extra_regressors_of :: "jsval \<Rightarrow> js_error + jsval" where
  "extra_regressors_of res =
     and_then (get_prop res ''components'') (\<lambda>components.
       get_prop components ''extra_regressors'')"

definition tab_labels :: "jsval \<Rightarrow> js_error + string list" where
  "tab_labels res =
     and_then (extra_regressors_of res) (\<lambda>extra.
     Inr ([''Forecast'', ''Trend'', ''Yearly Seasonality'']
          @ (if truthy extra then [''Extra Regressors''] else [])))"

text \<open>
  \<^verbatim>\<open>Object.entries\<close>: the own properties of an object; of an array or a string, its
  elements under their indices; of a number or a boolean, nothing.
\<close>

fun object_entries :: "jsval \<Rightarrow> js_error + (string \<times> jsval) list" where
  "object_entries (JObj props) = Inr props"
| "object_entries (JArr xs) = Inr (zip (map decimal [0..<length xs]) xs)"
| "object_entries (JStr s) = Inr (zip (map decimal [0..<length s]) (map (\<lambda>c. JStr [c]) s))"
| "object_entries (JNum q) = Inr []"
| "object_entries (JBool b) = Inr []"
| "object_entries v = Inl (TypeError ''entries'')"

text \<open>
  The fourth tab's panel: one chart per entry of \<open>extra_regressors\<close>, titled with the
  entry's key (nothing when \<open>extra_regressors\<close> is falsy).
\<close>

definition extra_regressor_charts :: "jsval \<Rightarrow> js_error + series list" where
  "extra_regressor_charts res =
     and_then (extra_regressors_of res) (\<lambda>extra.
     if \<not> truthy extra then Inr []
     else
       and_then (object_entries extra) (\<lambda>entries.
       traverse (\<lambda>(varName, data).
           and_then (array_map (xy ''date'' ''value'') data) (\<lambda>points. Inr (varName, points)))
         entries))"

section \<open>The response contract\<close>

text \<open>
  The success payload as the specification words it (section 6, shaped as
  \<open>ForecastResult\<close> of section 3): \<open>historical_actual: [{date, actual}]\<close>,
  \<open>forecast_data: [{date, predicted, lower, upper}]\<close>,
  \<open>components: {trend, yearly?, extra_regressors?: {name: [{date, value}]}}\<close>,
  \<open>cv_metrics: {mape, mae, rmse, coverage?}\<close>. Dates travel as strings.
\<close>

record actual_point =
  ap_date :: string
  ap_actual :: rat

record forecast_point =
  fp_date :: string
  fp_predicted :: rat
  fp_lower :: rat
  fp_upper :: rat

record component_point =
  cp_date :: string
  cp_value :: rat

record contract_components =
  c_trend :: "component_point list"
  c_yearly :: "component_point list option"
  c_extra_regressors :: "(string \<times> component_point list) list option"

record contract_cv_metrics =
  cv_mape :: rat
  cv_mae :: rat
  cv_rmse :: rat
  cv_coverage :: "rat option"

record forecast_result =
  r_historical_actual :: "actual_point list"
  r_forecast_data :: "forecast_point list"
  r_components :: contract_components
  r_cv_metrics :: contract_cv_metrics

text \<open>The JSON of a contract value, field names exactly as the contract spells them.\<close>

definition encode_actual :: "actual_point \<Rightarrow> jsval" where
  "encode_actual p = JObj [(''date'', JStr (ap_date p)), (''actual'', JNum (ap_actual p))]"

definition encode_forecast :: "forecast_point \<Rightarrow> jsval" where
  "encode_forecast p =
     JObj [(''date'', JStr (fp_date p)), (''predicted'', JNum (fp_predicted p)),
           (''lower'', JNum (fp_lower p)), (''upper'', JNum (fp_upper p))]"

definition encode_component_point :: "component_point \<Rightarrow> jsval" where
  "encode_component_point p = JObj [(''date'', JStr (cp_date p)), (''value'', JNum (cp_value p))]"

definition encode_series :: "component_point list \<Rightarrow> jsval" where
  "encode_series ps = JArr (map encode_component_point ps)"

definition encode_components :: "contract_components \<Rightarrow> jsval" where
  "encode_components c =
     JObj ([(''trend'', encode_series (c_trend c))]
           @ (case c_yearly c of None \<Rightarrow> [] | Some ys \<Rightarrow> [(''yearly'', encode_series ys)])
           @ (case c_extra_regressors c of
                None \<Rightarrow> []
              | Some ers \<Rightarrow>
                  [(''extra_regressors'', JObj (map (\<lambda>(name, ps). (name, encode_series ps)) ers))]))"

definition encode_cv_metrics :: "contract_cv_metrics \<Rightarrow> jsval" where
  "encode_cv_metrics m =
     JObj ([(''mape'', JNum (cv_mape m)), (''mae'', JNum (cv_mae m)), (''rmse'', JNum (cv_rmse m))]
           @ (case cv_coverage m of None \<Rightarrow> [] | Some c \<Rightarrow> [(''coverage'', JNum c)]))"

definition encode_result :: "forecast_result \<Rightarrow> jsval" where
  "encode_result r =
     JObj [(''historical_actual'', JArr (map encode_actual (r_historical_actual r))),
           (''forecast_data'', JArr (map encode_forecast (r_forecast_data r))),
           (''components'', encode_components (r_components r)),
           (''cv_metrics'', encode_cv_metrics (r_cv_metrics r))]"

text \<open>
  The regressor names of a contract value are the keys of one object, so they differ from
  each other.
\<close>

definition well_keyed :: "forecast_result \<Rightarrow> bool" where
  "well_keyed r =
     (case c_extra_regressors (r_components r) of
        None \<Rightarrow> True
      | Some ers \<Rightarrow> distinct (map fst ers))"

text \<open>What the charts show of a contract series.\<close>

definition component_points :: "component_point list \<Rightarrow> point list" where
  "component_points ps = map (\<lambda>p. (JStr (cp_date p), JNum (cp_value p))) ps"

subsection \<open>A value cut down to the contract's fields\<close>

text \<open>
  \<open>keep names v\<close> drops every property of the object \<open>v\<close> whose key is not in
  \<open>names\<close>; \<open>on_prop name f v\<close> rewrites the value under \<open>name\<close>; \<open>each f v\<close> rewrites
  the elements of the array \<open>v\<close>, \<open>each_value f v\<close> the property values of the object
  \<open>v\<close>. Values of another shape are left as they are.
\<close>

fun keep :: "string list \<Rightarrow> jsval \<Rightarrow> jsval" where
  "keep names (JObj props) = JObj (filter (\<lambda>(k, v). k \<in> set names) props)"
| "keep names v = v"

fun on_prop :: "string \<Rightarrow> (jsval \<Rightarrow> jsval) \<Rightarrow> jsval \<Rightarrow> jsval" where
  "on_prop name f (JObj props) =
     JObj (map (\<lambda>(k, v). if k = name then (k, f v) else (k, v)) props)"
| "on_prop name f v = v"

fun each :: "(jsval \<Rightarrow> jsval) \<Rightarrow> jsval \<Rightarrow> jsval" where
  "each f (JArr xs) = JArr (map f xs)"
| "each f v = v"

fun each_value :: "(jsval \<Rightarrow> jsval) \<Rightarrow> jsval \<Rightarrow> jsval" where
  "each_value f (JObj props) = JObj (map (\<lambda>(k, v). (k, f v)) props)"
| "each_value f v = v"

definition series_view :: "jsval \<Rightarrow> jsval" where
  "series_view = each (keep [''date'', ''value''])"

definition components_view :: "jsval \<Rightarrow> jsval" where
  "components_view c =
     on_prop ''trend'' series_view
       (on_prop ''yearly'' series_view
         (on_prop ''extra_regressors'' (each_value series_view)
           (keep [''trend'', ''yearly'', ''extra_regressors''] c)))"

definition contract_view :: "jsval \<Rightarrow> jsval" where
  "contract_view res =
     on_prop ''historical_actual'' (each (keep [''date'', ''actual'']))
       (on_prop ''forecast_data'' (each (keep [''date'', ''predicted'', ''lower'', ''upper'']))
         (on_prop ''components'' components_view
           (on_prop ''cv_metrics'' (keep [''mape'', ''mae'', ''rmse'', ''coverage''])
             (keep [''historical_actual'', ''forecast_data'', ''components'', ''cv_metrics'']
               res))))"

text \<open>A contract value and a response payload with more in it, to evaluate examples with.\<close>

definition sample_result :: forecast_result where
  "sample_result =
     \<lparr> r_historical_actual =
         [\<lparr>ap_date = ''2023-01-01'', ap_actual = 40\<rparr>, \<lparr>ap_date = ''2023-02-01'', ap_actual = 44\<rparr>],
       r_forecast_data =
         [\<lparr>fp_date = ''2023-01-01'', fp_predicted = 41, fp_lower = 38, fp_upper = 45\<rparr>,
          \<lparr>fp_date = ''2023-02-01'', fp_predicted = 43, fp_lower = 39, fp_upper = 47\<rparr>,
          \<lparr>fp_date = ''2023-03-01'', fp_predicted = 46, fp_lower = 40, fp_upper = 52\<rparr>],
       r_components =
         \<lparr> c_trend = [\<lparr>cp_date = ''2023-01-01'', cp_value = 41\<rparr>],
           c_yearly = None,
           c_extra_regressors =
             Some [(''total_population'', [\<lparr>cp_date = ''2023-01-01'', cp_value = 2\<rparr>])] \<rparr>,
       r_cv_metrics = \<lparr> cv_mape = 1 / 10, cv_mae = 3, cv_rmse = 4, cv_coverage = Some 0 \<rparr> \<rparr>"

definition padded_payload :: jsval where
  "padded_payload =
     JObj [(''model'', JStr ''prophet''),
           (''historical_actual'',
              JArr [JObj [(''date'', JStr ''2023-01-01''), (''actual'', JNum 40), (''id'', JNum 7)]]),
           (''forecast_data'', JArr []),
           (''components'', JObj [(''trend'', JArr []), (''weekly'', JArr [])]),
           (''cv_metrics'', JObj [(''mape'', JNum 1), (''r2'', JNum 1)])]"

text \<open>
  Two more results, which differ from \<open>sample_result\<close> (coverage 0) in their coverage
  only: one with a coverage of nine tenths and one with none.
\<close>

definition covered_result :: forecast_result where
  "covered_result =
     sample_result\<lparr>r_cv_metrics :=
       \<lparr> cv_mape = 1 / 10, cv_mae = 3, cv_rmse = 4, cv_coverage = Some (9 / 10) \<rparr>\<rparr>"

definition bare_result :: forecast_result where
  "bare_result =
     sample_result\<lparr>r_cv_metrics :=
       \<lparr> cv_mape = 1 / 10, cv_mae = 3, cv_rmse = 4, cv_coverage = None \<rparr>\<rparr>"

section \<open>The pipeline behind the endpoint\<close>

text \<open>
  The forecasting pipeline that answers the request is not among the sources. Its three
  components below are written down from the specification, and what is proved of them
  is proved of these definitions.
\<close>

subsection \<open>ComponentDecomposer\<close>

text \<open>
  Modelled from the spec: the ComponentDecomposer (section 4.4) and the shape of
  \<open>components\<close> (section 6) are missing from the sources. For each date it gives the trend
  value, the yearly-seasonality value (present only if enabled in the configuration) and one
  series per selected regressor with that regressor's contribution; with no regressor
  selected there is no \<open>extra_regressors\<close> entry (section 8). The fitted model is
  opaque: only its evaluation at a date is used.
\<close>

record fitted_model =
  trend_at :: "string \<Rightarrow> rat"
  yearly_at :: "string \<Rightarrow> rat"
  contribution_at :: "string \<Rightarrow> string \<Rightarrow> rat"

definition series_over :: "string list \<Rightarrow> (string \<Rightarrow> rat) \<Rightarrow> component_point list" where
  "series_over dates f = map (\<lambda>d. \<lparr>cp_date = d, cp_value = f d\<rparr>) dates"

definition decompose ::
  "fitted_model \<Rightarrow> bool \<Rightarrow> string list \<Rightarrow> string list \<Rightarrow> contract_components" where
  "decompose m yearly_enabled selected dates =
     \<lparr> c_trend = series_over dates (trend_at m),
       c_yearly = (if yearly_enabled then Some (series_over dates (yearly_at m)) else None),
       c_extra_regressors =
         (if selected = [] then None
          else Some (map (\<lambda>name. (name, series_over dates (contribution_at m name))) selected)) \<rparr>"

definition sample_model :: fitted_model where
  "sample_model =
     \<lparr> trend_at = (\<lambda>d. 40), yearly_at = (\<lambda>d. 1), contribution_at = (\<lambda>name d. 2) \<rparr>"

text \<open>Two results of the same fit, with one regressor selected and with none.\<close>

definition population_result :: forecast_result where
  "population_result =
     sample_result\<lparr>r_components :=
       decompose sample_model True [''total_population''] [''2023-01-01'', ''2023-02-01'']\<rparr>"

definition plain_result :: forecast_result where
  "plain_result =
     sample_result\<lparr>r_components :=
       decompose sample_model True [] [''2023-01-01'', ''2023-02-01'']\<rparr>"

subsection \<open>ResultAssembler\<close>

text \<open>
  Modelled from the spec: the ResultAssembler (section 4.6) is missing from the sources.
  A date is the number of its period (month) from a fixed origin. The future horizon is
  the \<open>horizon_periods\<close> periods after the last historical date; \<open>forecast_data\<close> has one
  point, the fitted model evaluated there, for each date of the union, deduplicated and
  sorted, of the historical dates and the future horizon dates (section 3). Fitting fails
  with \<open>InsufficientData\<close> on fewer than two distinct historical dates (section 4.3).
\<close>

type_synonym period = int

datatype pipeline_error = InsufficientData

fun latest :: "period list \<Rightarrow> period option" where
  "latest [] = None"
| "latest (d # ds) = Some (fold max ds d)"

definition future_horizon :: "period \<Rightarrow> nat \<Rightarrow> period list" where
  "future_horizon last_date horizon_periods =
     map (\<lambda>k. last_date + int k) [1..<Suc horizon_periods]"

fun insert_date :: "period \<Rightarrow> period list \<Rightarrow> period list" where
  "insert_date d [] = [d]"
| "insert_date d (x # xs) =
     (if d < x then d # x # xs else if d = x then x # xs else x # insert_date d xs)"

definition date_union :: "period list \<Rightarrow> period list" where
  "date_union ds = foldr insert_date ds []"

definition horizon_dates :: "(period \<times> rat) list \<Rightarrow> nat \<Rightarrow> period list" where
  "horizon_dates history horizon_periods =
     (case latest (map fst history) of
        None \<Rightarrow> []
      | Some last_date \<Rightarrow> future_horizon last_date horizon_periods)"

definition assemble_forecast ::
  "(period \<Rightarrow> rat \<times> rat \<times> rat) \<Rightarrow> (period \<times> rat) list \<Rightarrow> nat
     \<Rightarrow> pipeline_error + (period \<times> rat \<times> rat \<times> rat) list" where
  "assemble_forecast evaluate history horizon_periods =
     (if length (remdups (map fst history)) < 2 then Inl InsufficientData
      else Inr (map (\<lambda>d. (d, evaluate d))
                 (date_union (map fst history @ horizon_dates history horizon_periods))))"

subsection \<open>ConfigValidator\<close>

text \<open>
  Modelled from the spec: the ConfigValidator (section 4.1) is missing from the sources.
  It takes the raw fields and gives a validated \<open>ForecastConfig\<close> or a structured
  validation failure naming the offending field: \<open>growth\<close> and \<open>seasonality_mode\<close> must be one of
  their enumerated values, the three prior scales finite and positive, \<open>interval_width\<close>
  finite and strictly between 0 and 1, \<open>horizon_periods\<close> not negative, and every extra
  regressor name known to the SeriesStore, an unknown one failing with
  \<open>UnknownRegressor\<close>. The fields are checked in the order of section 3.
\<close>

datatype raw_number = Finite rat | NotFinite

record raw_config =
  raw_growth :: string
  raw_extra_vars :: "string list"
  raw_yearly_seasonality :: bool
  raw_seasonality_mode :: string
  raw_changepoint_prior_scale :: raw_number
  raw_seasonality_prior_scale :: raw_number
  raw_regressor_prior_scale :: raw_number
  raw_interval_width :: raw_number
  raw_horizon_periods :: int

datatype growth_kind = Linear | Logistic

datatype mode_kind = Additive | Multiplicative

record forecast_config =
  cfg_growth :: growth_kind
  cfg_extra_regressor_names :: "string list"
  cfg_yearly_seasonality :: bool
  cfg_seasonality_mode :: mode_kind
  cfg_changepoint_prior_scale :: rat
  cfg_seasonality_prior_scale :: rat
  cfg_regressor_prior_scale :: rat
  cfg_interval_width :: rat
  cfg_horizon_periods :: nat

text \<open>
  A failure is structured: it names the offending field and carries the value that was
  refused.
\<close>

datatype raw_value = Text string | Number raw_number | Count int

datatype validation_failure = ValidationError string raw_value | UnknownRegressor string

definition check :: "validation_failure + 'a \<Rightarrow> ('a \<Rightarrow> validation_failure + 'b)
    \<Rightarrow> validation_failure + 'b" where
  "check r f = (case r of Inl e \<Rightarrow> Inl e | Inr x \<Rightarrow> f x)"

definition parse_growth :: "string \<Rightarrow> validation_failure + growth_kind" where
  "parse_growth s =
     (if s = ''linear'' then Inr Linear
      else if s = ''logistic'' then Inr Logistic
      else Inl (ValidationError ''growth'' (Text s)))"

definition parse_mode :: "string \<Rightarrow> validation_failure + mode_kind" where
  "parse_mode s =
     (if s = ''additive'' then Inr Additive
      else if s = ''multiplicative'' then Inr Multiplicative
      else Inl (ValidationError ''seasonality_mode'' (Text s)))"

fun positive_scale :: "string \<Rightarrow> raw_number \<Rightarrow> validation_failure + rat" where
  "positive_scale field (Finite q) =
     (if 0 < q then Inr q else Inl (ValidationError field (Number (Finite q))))"
| "positive_scale field NotFinite = Inl (ValidationError field (Number NotFinite))"

fun open_unit :: "string \<Rightarrow> raw_number \<Rightarrow> validation_failure + rat" where
  "open_unit field (Finite q) =
     (if 0 < q \<and> q < 1 then Inr q else Inl (ValidationError field (Number (Finite q))))"
| "open_unit field NotFinite = Inl (ValidationError field (Number NotFinite))"

definition known_names :: "string list \<Rightarrow> string list \<Rightarrow> validation_failure + string list" where
  "known_names known names =
     (case find (\<lambda>n. n \<notin> set known) names of
        Some n \<Rightarrow> Inl (UnknownRegressor n)
      | None \<Rightarrow> Inr (remdups names))"

definition validate :: "string list \<Rightarrow> raw_config \<Rightarrow> validation_failure + forecast_config" where
  "validate known raw =
     check (parse_growth (raw_growth raw)) (\<lambda>g.
     check (known_names known (raw_extra_vars raw)) (\<lambda>names.
     check (parse_mode (raw_seasonality_mode raw)) (\<lambda>mode.
     check (positive_scale ''changepoint_prior_scale'' (raw_changepoint_prior_scale raw)) (\<lambda>cps.
     check (positive_scale ''seasonality_prior_scale'' (raw_seasonality_prior_scale raw)) (\<lambda>sps.
     check (positive_scale ''regressor_prior_scale'' (raw_regressor_prior_scale raw)) (\<lambda>rps.
     check (open_unit ''interval_width'' (raw_interval_width raw)) (\<lambda>width.
     if raw_horizon_periods raw < 0
     then Inl (ValidationError ''horizon_periods'' (Count (raw_horizon_periods raw)))
     else Inr \<lparr> cfg_growth = g,
                cfg_extra_regressor_names = names,
                cfg_yearly_seasonality = raw_yearly_seasonality raw,
                cfg_seasonality_mode = mode,
                cfg_changepoint_prior_scale = cps,
                cfg_seasonality_prior_scale = sps,
                cfg_regressor_prior_scale = rps,
                cfg_interval_width = width,
                cfg_horizon_periods = nat (raw_horizon_periods raw) \<rparr>)))))))"

text \<open>
  The faulty configurations of section 8: an interval width of 0 or of 1, a negative prior
  scale, or a regressor name the store does not know.
\<close>

fun negative :: "raw_number \<Rightarrow> bool" where
  "negative (Finite q) = (q < 0)"
| "negative NotFinite = False"

definition faulty :: "string list \<Rightarrow> raw_config \<Rightarrow> bool" where
  "faulty known raw =
     (raw_interval_width raw = Finite 0
      \<or> raw_interval_width raw = Finite 1
      \<or> negative (raw_changepoint_prior_scale raw)
      \<or> negative (raw_seasonality_prior_scale raw)
      \<or> negative (raw_regressor_prior_scale raw)
      \<or> list_ex (\<lambda>n. n \<notin> set known) (raw_extra_vars raw))"

text \<open>The request of the initial page as a raw configuration, with a horizon of 12.\<close>

definition default_raw :: raw_config where
  "default_raw =
     \<lparr> raw_growth = ''linear'',
       raw_extra_vars = [],
       raw_yearly_seasonality = True,
       raw_seasonality_mode = ''additive'',
       raw_changepoint_prior_scale = Finite (5 / 100),
       raw_seasonality_prior_scale = Finite 10,
       raw_regressor_prior_scale = Finite (5 / 100),
       raw_interval_width = Finite (95 / 100),
       raw_horizon_periods = 12 \<rparr>"

section \<open>Properties of the request\<close>

text \<open>
  C1, as stated: every request has exactly the eight contract fields and no other. The
  request built from the initial state already has a field \<open>weekly_seasonality\<close>, which
  is not one of the eight.
\<close>

theorem request_fields_counterexample:
  "set (keys_of (request_body initial_state)) \<noteq> set contract_request_fields"
proof
  assume eq: "set (keys_of (request_body initial_state)) = set contract_request_fields"
  have "''weekly_seasonality'' \<in> set (keys_of (request_body initial_state))"
    by (simp add: request_body_def)
  with eq have "''weekly_seasonality'' \<in> set contract_request_fields"
    by simp
  then show False
    by (simp add: contract_request_fields_def)
qed

text \<open>
  C1, amended: every request carries the eight contract fields, \<open>extra_vars\<close> being an
  array of strings, and besides them exactly three more: \<open>weekly_seasonality\<close> and
  \<open>daily_seasonality\<close>, both \<open>false\<close>, and \<open>regressor_mode\<close>, whose value is that of
  the \<open>seasonality_mode\<close> field of the same request.
\<close>

theorem request_fields_amended:
  "keys_of (request_body st) =
     [''extra_vars'', ''growth'', ''yearly_seasonality'', ''weekly_seasonality'',
      ''daily_seasonality'', ''seasonality_mode'', ''changepoint_prior_scale'',
      ''seasonality_prior_scale'', ''interval_width'', ''regressor_prior_scale'',
      ''regressor_mode'']
   \<and> filter (\<lambda>k. k \<in> set contract_request_fields) (keys_of (request_body st)) =
       contract_request_fields
   \<and> filter (\<lambda>k. k \<notin> set contract_request_fields) (keys_of (request_body st)) =
       [''weekly_seasonality'', ''daily_seasonality'', ''regressor_mode'']
   \<and> get_prop (request_body st) ''extra_vars'' = Inr (JArr (map JStr (selectedExtraVars st)))
   \<and> get_prop (request_body st) ''weekly_seasonality'' = Inr (JBool False)
   \<and> get_prop (request_body st) ''daily_seasonality'' = Inr (JBool False)
   \<and> get_prop (request_body st) ''seasonality_mode'' = Inr (JStr (seasonalityMode st))
   \<and> get_prop (request_body st) ''regressor_mode'' = Inr (JStr (seasonalityMode st))
   \<and> get_prop (request_body st) ''regressor_mode''
       = get_prop (request_body st) ''seasonality_mode''"
  by (simp add: request_body_def contract_request_fields_def)

text \<open>
  C9: whatever the state of the component, the request's \<open>interval_width\<close> is the
  constant 0.95.
\<close>

theorem interval_width_constant:
  "get_prop (request_body st) ''interval_width'' = Inr (JNum (95 / 100))"
  by (simp add: request_body_def)

section \<open>The selection of extra regressors\<close>

lemma toggle_distinct: "distinct prev \<Longrightarrow> distinct (toggle v prev)"
  by (simp add: toggle_def)

lemma toggle_subset: "v \<in> A \<Longrightarrow> set prev \<subseteq> A \<Longrightarrow> set (toggle v prev) \<subseteq> A"
  by (auto simp: toggle_def)

lemma fetchPrediction_selection:
  "selectedExtraVars (fetchPrediction eng outcome st) = selectedExtraVars st"
  by (simp add: fetchPrediction_def Let_def split: sum.splits)

lemma handle_selection:
  assumes "offered e" and "distinct (selectedExtraVars st)"
    and "set (selectedExtraVars st) \<subseteq> set AVAILABLE_EXTRA_VARS"
  shows "distinct (selectedExtraVars (handle eng e st))
    \<and> set (selectedExtraVars (handle eng e st)) \<subseteq> set AVAILABLE_EXTRA_VARS"
  using assms
  by (cases e)
    (simp_all add: handleExtraVarChange_def toggle_distinct toggle_subset
      fetchPrediction_selection)

lemma run_selection:
  assumes "list_all offered es" and "distinct (selectedExtraVars st)"
    and "set (selectedExtraVars st) \<subseteq> set AVAILABLE_EXTRA_VARS"
  shows "distinct (selectedExtraVars (run eng es st))
    \<and> set (selectedExtraVars (run eng es st)) \<subseteq> set AVAILABLE_EXTRA_VARS"
  using assms
proof (induction es arbitrary: st)
  case Nil
  then show ?case by simp
next
  case (Cons e es)
  from Cons.prems have "offered e" and rest: "list_all offered es"
    by simp_all
  with Cons.prems
  have "distinct (selectedExtraVars (handle eng e st))
    \<and> set (selectedExtraVars (handle eng e st)) \<subseteq> set AVAILABLE_EXTRA_VARS"
    using handle_selection by blast
  with rest Cons.IH show ?case by simp
qed

text \<open>
  C10: after any finite run of events the page offers, from the initial state (toggles of
  the six checkboxes, and anything else the user can do in between), the selection has no
  duplicate and holds only names of \<^verbatim>\<open>AVAILABLE_EXTRA_VARS\<close>, of which there are six;
  the \<open>extra_vars\<close> of the request built from that state is that selection.
\<close>

theorem selection_invariant:
  assumes "list_all offered es"
  shows "distinct (selectedExtraVars (run eng es initial_state))
    \<and> set (selectedExtraVars (run eng es initial_state)) \<subseteq> set AVAILABLE_EXTRA_VARS
    \<and> length AVAILABLE_EXTRA_VARS = 6
    \<and> get_prop (request_body (run eng es initial_state)) ''extra_vars'' =
        Inr (JArr (map JStr (selectedExtraVars (run eng es initial_state))))
    \<and> distinct (map JStr (selectedExtraVars (run eng es initial_state)))"
proof -
  have "distinct (selectedExtraVars initial_state)"
    and "set (selectedExtraVars initial_state) \<subseteq> set AVAILABLE_EXTRA_VARS"
    by (simp_all add: initial_state_def)
  with assms have inv: "distinct (selectedExtraVars (run eng es initial_state))
    \<and> set (selectedExtraVars (run eng es initial_state)) \<subseteq> set AVAILABLE_EXTRA_VARS"
    by (rule run_selection)
  have "inj_on JStr (set (selectedExtraVars (run eng es initial_state)))"
    by (simp add: inj_on_def)
  with inv have "distinct (map JStr (selectedExtraVars (run eng es initial_state)))"
    by (simp add: distinct_map)
  moreover have "length AVAILABLE_EXTRA_VARS = 6"
    by (simp add: AVAILABLE_EXTRA_VARS_def)
  moreover have "get_prop (request_body (run eng es initial_state)) ''extra_vars'' =
        Inr (JArr (map JStr (selectedExtraVars (run eng es initial_state))))"
    by (simp add: request_body_def)
  ultimately show ?thesis
    using inv by simp
qed

theorem selection_invariant_witness:
  "list_all offered
     [ToggleExtraVar ''age_70_79'', ToggleExtraVar ''age_80_84'', SetGrowth ''logistic'',
      ToggleExtraVar ''age_70_79'', ToggleExtraVar ''total_population'']
   \<and> selectedExtraVars
       (run sample_engine
         [ToggleExtraVar ''age_70_79'', ToggleExtraVar ''age_80_84'', SetGrowth ''logistic'',
          ToggleExtraVar ''age_70_79'', ToggleExtraVar ''total_population'']
         initial_state) = [''age_80_84'', ''total_population'']
   \<and> distinct (selectedExtraVars
       (run sample_engine
         [ToggleExtraVar ''age_70_79'', ToggleExtraVar ''age_80_84'', SetGrowth ''logistic'',
          ToggleExtraVar ''age_70_79'', ToggleExtraVar ''total_population'']
         initial_state))"
proof -
  have offered: "list_all offered
     [ToggleExtraVar ''age_70_79'', ToggleExtraVar ''age_80_84'', SetGrowth ''logistic'',
      ToggleExtraVar ''age_70_79'', ToggleExtraVar ''total_population'']"
    by (simp add: AVAILABLE_EXTRA_VARS_def)
  have sel: "selectedExtraVars
       (run sample_engine
         [ToggleExtraVar ''age_70_79'', ToggleExtraVar ''age_80_84'', SetGrowth ''logistic'',
          ToggleExtraVar ''age_70_79'', ToggleExtraVar ''total_population'']
         initial_state) = [''age_80_84'', ''total_population'']"
    by (simp add: handleExtraVarChange_def toggle_def initial_state_def)
  from selection_invariant [OF offered, of sample_engine] offered sel
  show ?thesis by blast
qed

section \<open>Failure responses\<close>

text \<open>
  C3, as stated: on every failure response the displayed error is the body's message, or
  else a generic HTTP-status message. A response with status code 200 whose body is
  \<^verbatim>\<open>{"status": "error"}\<close> is a failure response with no message; the error displayed
  is \<^verbatim>\<open>Prediction failed\<close>, not a message about the HTTP status.
\<close>

theorem failure_fallback_counterexample:
  "body_status plain_failure \<noteq> Some (JStr ''success'')
   \<and> json plain_failure = Parsed (JObj [(''status'', JStr ''error'')])
   \<and> error (fetchPrediction sample_engine (Responded plain_failure) initial_state)
       = Some ''Prediction failed''
   \<and> error (fetchPrediction sample_engine (Responded plain_failure) initial_state)
       \<noteq> Some (''HTTP error! status: '' @ decimal (status plain_failure))"
  by (simp add: plain_failure_def body_status_def fetchPrediction_def fetch_try_def ok_def
      message_or_def)


lemma get_prop_total:
  "v \<noteq> JNull \<Longrightarrow> v \<noteq> JUndefined \<Longrightarrow> \<exists>s. get_prop v name = Inr s"
  by (cases v) (auto split: option.splits)

lemma fetch_try_failure:
  assumes "\<not> ok r \<or> body_status r \<noteq> Some (JStr ''success'')"
  shows "\<exists>m. fetch_try eng (Responded r) = Inl m"
  using assms
  by (auto simp: fetch_try_def body_status_def split: body.splits sum.splits)

lemma fetch_try_message:
  assumes "\<not> ok r \<or> body_status r \<noteq> Some (JStr ''success'')"
    and "json r = Parsed b" and "get_prop b ''message'' = Inr v"
  shows "fetch_try eng (Responded r) =
         Inl (message_or eng v (if ok r then ''Prediction failed''
                                else ''HTTP error! status: '' @ decimal (status r)))"
proof (cases "ok r")
  case False
  with assms show ?thesis by (simp add: fetch_try_def)
next
  case True
  from assms(3) have nn: "b \<noteq> JNull" "b \<noteq> JUndefined" by auto
  then obtain s where s: "get_prop b ''status'' = Inr s"
    using get_prop_total by blast
  with True assms(1,2) have "s \<noteq> JStr ''success''"
    by (simp add: body_status_def)
  with True s assms(2,3) show ?thesis by (simp add: fetch_try_def)
qed

text \<open>
  C3, amended: for every response whose status code is not ok or whose body has a status
  other than \<^verbatim>\<open>success\<close>, \<^verbatim>\<open>fetchPrediction\<close> leaves the result \<open>null\<close>, so that
  no results block is rendered, and sets the error cell to a string. When the body parses
  to a JSON value other than \<open>null\<close>, so that its \<open>message\<close> can be read: if the message
  is a non-empty string, that string is the error and the page displays it; if the message
  is absent or falsy, the error, which the page displays, is the HTTP-status message when
  the status code is not ok and \<^verbatim>\<open>Prediction failed\<close> when it is ok. Nothing is said
  here of the text when the body does not parse, is \<open>null\<close>, or has a truthy message that
  is not a string. So a result is stored only when the status code is ok and the body's
  status is \<^verbatim>\<open>success\<close>.
\<close>

theorem failure_response_handling:
  assumes fail: "\<not> ok r \<or> body_status r \<noteq> Some (JStr ''success'')"
  shows "result (fetchPrediction eng (Responded r) st) = JNull
    \<and> \<not> results_shown (fetchPrediction eng (Responded r) st)
    \<and> error (fetchPrediction eng (Responded r) st) \<noteq> None
    \<and> (\<exists>text. error (fetchPrediction eng (Responded r) st) = Some text)
    \<and> (\<forall>b m. json r = Parsed b \<and> get_prop b ''message'' = Inr (JStr m) \<and> m \<noteq> []
          \<longrightarrow> error (fetchPrediction eng (Responded r) st) = Some m
            \<and> displayed_error (fetchPrediction eng (Responded r) st) = Some m)
    \<and> (\<forall>b v. json r = Parsed b \<and> get_prop b ''message'' = Inr v \<and> \<not> truthy v
          \<longrightarrow> error (fetchPrediction eng (Responded r) st) =
              Some (if ok r then ''Prediction failed''
                    else ''HTTP error! status: '' @ decimal (status r))
            \<and> displayed_error (fetchPrediction eng (Responded r) st) =
              Some (if ok r then ''Prediction failed''
                    else ''HTTP error! status: '' @ decimal (status r)))"
proof -
  let ?st = "fetchPrediction eng (Responded r) st"
  let ?fallback = "if ok r then ''Prediction failed''
                   else ''HTTP error! status: '' @ decimal (status r)"
  from fetch_try_failure [OF fail] obtain m where m: "fetch_try eng (Responded r) = Inl m"
    by blast
  have a: "result ?st = JNull" and b: "error ?st = Some m"
    using m by (simp_all add: fetchPrediction_def)
  have shown: "\<not> results_shown ?st"
    using a by (simp add: results_shown_def)
  have disp: "displayed_error ?st = Some m" if "m \<noteq> []"
    using b that by (simp add: displayed_error_def)
  have c: "m = m'" if "json r = Parsed b" "get_prop b ''message'' = Inr (JStr m')" "m' \<noteq> []"
    for b m'
    using fetch_try_message [OF fail that(1,2), of eng] m that(3) by (simp add: message_or_def)
  have d: "m = ?fallback"
    if "json r = Parsed b" "get_prop b ''message'' = Inr v" "\<not> truthy v" for b v
    using fetch_try_message [OF fail that(1,2), of eng] m that(3) by (simp add: message_or_def)
  have nonempty: "?fallback \<noteq> []"
    by simp
  have c': "error ?st = Some m' \<and> displayed_error ?st = Some m'"
    if "json r = Parsed b" "get_prop b ''message'' = Inr (JStr m')" "m' \<noteq> []" for b m'
    using c [OF that] b disp that(3) by simp
  have d': "error ?st = Some ?fallback \<and> displayed_error ?st = Some ?fallback"
    if "json r = Parsed b" "get_prop b ''message'' = Inr v" "\<not> truthy v" for b v
  proof -
    from d [OF that] have "m = ?fallback" .
    moreover from this nonempty have "m \<noteq> []" by simp
    ultimately show ?thesis using b disp by simp
  qed
  from b have some: "\<exists>text. error ?st = Some text" and ne: "error ?st \<noteq> None"
    by simp_all
  from c' have c'': "\<forall>b m. json r = Parsed b \<and> get_prop b ''message'' = Inr (JStr m) \<and> m \<noteq> []
          \<longrightarrow> error ?st = Some m \<and> displayed_error ?st = Some m"
    by blast
  from d' have d'': "\<forall>b v. json r = Parsed b \<and> get_prop b ''message'' = Inr v \<and> \<not> truthy v
          \<longrightarrow> error ?st = Some ?fallback \<and> displayed_error ?st = Some ?fallback"
    by blast
  show ?thesis
    by (intro conjI a shown ne some c'' d'')
qed

theorem failure_response_handling_witness:
  "\<not> ok refused
   \<and> result (fetchPrediction sample_engine (Responded refused) initial_state) = JNull
   \<and> error (fetchPrediction sample_engine (Responded refused) initial_state) = Some ''bad growth''
   \<and> displayed_error (fetchPrediction sample_engine (Responded refused) initial_state)
       = Some ''bad growth''
   \<and> \<not> ok unavailable
   \<and> displayed_error (fetchPrediction sample_engine (Responded unavailable) initial_state)
       = Some ''HTTP error! status: 503''
   \<and> ok plain_failure \<and> body_status plain_failure \<noteq> Some (JStr ''success'')
   \<and> displayed_error (fetchPrediction sample_engine (Responded plain_failure) initial_state)
       = Some ''Prediction failed''"
proof -
  have r: "\<not> ok refused" by (simp add: refused_def ok_def)
  have u: "\<not> ok unavailable" by (simp add: unavailable_def ok_def)
  have p: "ok plain_failure" "body_status plain_failure \<noteq> Some (JStr ''success'')"
    by (simp_all add: plain_failure_def ok_def body_status_def)
  have dec: "decimal 503 = ''503''" by code_simp
  from r have 1: "\<not> ok refused \<or> body_status refused \<noteq> Some (JStr ''success'')" by simp
  from u have 2: "\<not> ok unavailable \<or> body_status unavailable \<noteq> Some (JStr ''success'')"
    by simp
  from p have 3: "\<not> ok plain_failure \<or> body_status plain_failure \<noteq> Some (JStr ''success'')"
    by simp
  have jr: "json refused =
        Parsed (JObj [(''status'', JStr ''error''), (''message'', JStr ''bad growth'')])
      \<and> get_prop (JObj [(''status'', JStr ''error''), (''message'', JStr ''bad growth'')])
          ''message'' = Inr (JStr ''bad growth'')
      \<and> ''bad growth'' \<noteq> []"
    by (simp add: refused_def)
  have ju: "json unavailable = Parsed (JObj [])
      \<and> get_prop (JObj []) ''message'' = Inr JUndefined \<and> \<not> truthy JUndefined"
    by (simp add: unavailable_def)
  have jp: "json plain_failure = Parsed (JObj [(''status'', JStr ''error'')])
      \<and> get_prop (JObj [(''status'', JStr ''error'')]) ''message'' = Inr JUndefined
      \<and> \<not> truthy JUndefined"
    by (simp add: plain_failure_def)
  have su: "status unavailable = 503" by (simp add: unavailable_def)
  note A = failure_response_handling [OF 1, of sample_engine initial_state]
  note B = failure_response_handling [OF 2, of sample_engine initial_state]
  note C = failure_response_handling [OF 3, of sample_engine initial_state]
  from A have a1: "result (fetchPrediction sample_engine (Responded refused) initial_state) = JNull"
    by blast
  from A jr
  have a2: "error (fetchPrediction sample_engine (Responded refused) initial_state)
      = Some ''bad growth''"
    and a3: "displayed_error (fetchPrediction sample_engine (Responded refused) initial_state)
      = Some ''bad growth''"
    by blast+
  from B ju
  have "displayed_error (fetchPrediction sample_engine (Responded unavailable) initial_state) =
      Some (if ok unavailable then ''Prediction failed''
            else ''HTTP error! status: '' @ decimal (status unavailable))"
    by blast
  with u su dec
  have b1: "displayed_error (fetchPrediction sample_engine (Responded unavailable) initial_state)
      = Some ''HTTP error! status: 503''"
    by simp
  from C jp
  have "displayed_error (fetchPrediction sample_engine (Responded plain_failure) initial_state) =
      Some (if ok plain_failure then ''Prediction failed''
            else ''HTTP error! status: '' @ decimal (status plain_failure))"
    by blast
  with p
  have c1: "displayed_error (fetchPrediction sample_engine (Responded plain_failure) initial_state)
      = Some ''Prediction failed''"
    by simp
  show ?thesis
    using r u p a1 a2 a3 b1 c1 by blast
qed

section \<open>Binding to the response contract\<close>

lemma and_then_Inr [simp]: "and_then (Inr x) f = f x"
  by (simp add: and_then_def)

lemma and_then_Inl [simp]: "and_then (Inl e) f = Inl e"
  by (simp add: and_then_def)

lemma traverse_map: "traverse g (map f xs) = traverse (\<lambda>x. g (f x)) xs"
  by (induction xs) simp_all

lemma traverse_cong_set: "(\<And>x. x \<in> set xs \<Longrightarrow> f x = g x) \<Longrightarrow> traverse f xs = traverse g xs"
  by (induction xs) simp_all

lemma traverse_total: "traverse (\<lambda>x. Inr (f x)) xs = Inr (map f xs)"
  by (induction xs) simp_all

lemma map_of_keep:
  "name \<in> set names \<Longrightarrow> map_of (filter (\<lambda>(k, v). k \<in> set names) props) name = map_of props name"
  by (induction props) auto

lemma get_prop_keep: "name \<in> set names \<Longrightarrow> get_prop (keep names v) name = get_prop v name"
  by (cases v) (simp_all add: map_of_keep)

lemma map_of_on_prop_same:
  "map_of (map (\<lambda>(k, v). if k = name then (k, f v) else (k, v)) props) name
     = map_option f (map_of props name)"
  by (induction props) auto

lemma map_of_on_prop_other:
  "k' \<noteq> name \<Longrightarrow>
   map_of (map (\<lambda>(k, v). if k = name then (k, f v) else (k, v)) props) k' = map_of props k'"
  by (induction props) auto

lemma get_prop_on_prop_same:
  "f JUndefined = JUndefined \<Longrightarrow>
   get_prop (on_prop name f v) name = and_then (get_prop v name) (\<lambda>x. Inr (f x))"
  by (cases v) (simp_all add: map_of_on_prop_same split: option.splits)

lemma get_prop_on_prop_other:
  "k \<noteq> name \<Longrightarrow> get_prop (on_prop name f v) k = get_prop v k"
  by (cases v) (simp_all add: map_of_on_prop_other)

lemma truthy_keep [simp]: "truthy (keep names v) = truthy v"
  by (cases v) simp_all

lemma truthy_on_prop [simp]: "truthy (on_prop name f v) = truthy v"
  by (cases v) simp_all

lemma truthy_each [simp]: "truthy (each f v) = truthy v"
  by (cases v) simp_all

lemma truthy_each_value [simp]: "truthy (each_value f v) = truthy v"
  by (cases v) simp_all

lemma xy_keep: "a \<in> set names \<Longrightarrow> b \<in> set names \<Longrightarrow> xy a b (keep names v) = xy a b v"
  by (simp add: xy_def get_prop_keep)

lemma array_map_each: "array_map g (each f v) = array_map (\<lambda>x. g (f x)) v"
  by (cases v) (simp_all add: traverse_map)

lemma array_map_xy_keep:
  "a \<in> set names \<Longrightarrow> b \<in> set names \<Longrightarrow>
   array_map (xy a b) (each (keep names) v) = array_map (xy a b) v"
  by (simp add: array_map_each xy_keep)

lemma array_map_series_view:
  "array_map (xy ''date'' ''value'') (series_view v) = array_map (xy ''date'' ''value'') v"
  by (simp add: series_view_def array_map_xy_keep)

lemma truthy_series_view [simp]: "truthy (series_view v) = truthy v"
  by (simp add: series_view_def)

lemma view_historical_actual:
  "get_prop (contract_view res) ''historical_actual'' =
     and_then (get_prop res ''historical_actual'') (\<lambda>x. Inr (each (keep [''date'', ''actual'']) x))"
  by (simp add: contract_view_def get_prop_on_prop_same get_prop_on_prop_other get_prop_keep)

lemma view_forecast_data:
  "get_prop (contract_view res) ''forecast_data'' =
     and_then (get_prop res ''forecast_data'')
       (\<lambda>x. Inr (each (keep [''date'', ''predicted'', ''lower'', ''upper'']) x))"
  by (simp add: contract_view_def get_prop_on_prop_same get_prop_on_prop_other get_prop_keep)

lemma components_view_undefined: "components_view JUndefined = JUndefined"
  by (simp add: components_view_def)

lemma view_components:
  "get_prop (contract_view res) ''components'' =
     and_then (get_prop res ''components'') (\<lambda>x. Inr (components_view x))"
  by (simp add: contract_view_def get_prop_on_prop_same get_prop_on_prop_other get_prop_keep
      components_view_undefined)

lemma view_cv_metrics:
  "get_prop (contract_view res) ''cv_metrics'' =
     and_then (get_prop res ''cv_metrics'')
       (\<lambda>x. Inr (keep [''mape'', ''mae'', ''rmse'', ''coverage''] x))"
  by (simp add: contract_view_def get_prop_on_prop_same get_prop_on_prop_other get_prop_keep)

lemma truthy_contract_view [simp]: "truthy (contract_view res) = truthy res"
  by (simp add: contract_view_def)

lemma truthy_components_view [simp]: "truthy (components_view c) = truthy c"
  by (simp add: components_view_def)

lemma series_view_undefined: "series_view JUndefined = JUndefined"
  by (simp add: series_view_def)

lemma view_trend:
  "get_prop (components_view c) ''trend'' =
     and_then (get_prop c ''trend'') (\<lambda>x. Inr (series_view x))"
  by (simp add: components_view_def get_prop_on_prop_same get_prop_on_prop_other get_prop_keep
      series_view_undefined)

lemma view_yearly:
  "get_prop (components_view c) ''yearly'' =
     and_then (get_prop c ''yearly'') (\<lambda>x. Inr (series_view x))"
  by (simp add: components_view_def get_prop_on_prop_same get_prop_on_prop_other get_prop_keep
      series_view_undefined)

lemma view_extra_regressors:
  "get_prop (components_view c) ''extra_regressors'' =
     and_then (get_prop c ''extra_regressors'') (\<lambda>x. Inr (each_value series_view x))"
  by (simp add: components_view_def get_prop_on_prop_same get_prop_on_prop_other get_prop_keep)


lemma forecast_chart_view:
  "prepareForecastChartData (contract_view res) = prepareForecastChartData res"
  by (cases "get_prop res ''forecast_data''"; cases "get_prop res ''historical_actual''")
    (simp_all add: prepareForecastChartData_def view_forecast_data view_historical_actual
      array_map_xy_keep)

lemma ciData_view: "ciData (contract_view res) = ciData res"
  by (cases "get_prop res ''forecast_data''")
    (simp_all add: ciData_def view_forecast_data array_map_xy_keep)

lemma trend_chart_view:
  "prepareComponentChartData ''trend'' (contract_view res) = prepareComponentChartData ''trend'' res"
proof (cases "get_prop res ''components''")
  case (Inl e)
  then show ?thesis by (simp add: prepareComponentChartData_def view_components)
next
  case (Inr c)
  then show ?thesis
    by (cases "get_prop c ''trend''")
      (simp_all add: prepareComponentChartData_def view_components view_trend
        array_map_series_view)
qed

lemma yearly_chart_view:
  "prepareComponentChartData ''yearly'' (contract_view res) = prepareComponentChartData ''yearly'' res"
proof (cases "get_prop res ''components''")
  case (Inl e)
  then show ?thesis by (simp add: prepareComponentChartData_def view_components)
next
  case (Inr c)
  then show ?thesis
    by (cases "get_prop c ''yearly''")
      (simp_all add: prepareComponentChartData_def view_components view_yearly
        array_map_series_view)
qed

lemma extra_regressors_of_view:
  "extra_regressors_of (contract_view res) =
     and_then (extra_regressors_of res) (\<lambda>x. Inr (each_value series_view x))"
  by (cases "get_prop res ''components''")
    (simp_all add: extra_regressors_of_def view_components view_extra_regressors)

lemma tab_labels_view: "tab_labels (contract_view res) = tab_labels res"
  by (cases "extra_regressors_of res") (simp_all add: tab_labels_def extra_regressors_of_view)

lemma entries_charts_each_value:
  "and_then (object_entries (each_value series_view x))
     (traverse (\<lambda>(varName, data).
        and_then (array_map (xy ''date'' ''value'') data) (\<lambda>points. Inr (varName, points))))
   = and_then (object_entries x)
     (traverse (\<lambda>(varName, data).
        and_then (array_map (xy ''date'' ''value'') data) (\<lambda>points. Inr (varName, points))))"
proof (cases x)
  case (JObj props)
  have "traverse (\<lambda>(varName, data).
          and_then (array_map (xy ''date'' ''value'') data) (\<lambda>points. Inr (varName, points)))
          (map (\<lambda>(k, v). (k, series_view v)) props)
      = traverse (\<lambda>(varName, data).
          and_then (array_map (xy ''date'' ''value'') data) (\<lambda>points. Inr (varName, points)))
          props"
    by (induction props) (auto simp: array_map_series_view)
  with JObj show ?thesis by simp
qed simp_all

lemma extra_regressor_charts_view:
  "extra_regressor_charts (contract_view res) = extra_regressor_charts res"
  by (cases "extra_regressors_of res")
    (simp_all add: extra_regressor_charts_def extra_regressors_of_view entries_charts_each_value)

lemma cv_metric_view:
  "name \<in> set [''mape'', ''mae'', ''rmse'', ''coverage''] \<Longrightarrow>
   cv_metric (contract_view res) name = cv_metric res name"
  by (cases "get_prop res ''cv_metrics''")
    (simp_all only: cv_metric_def view_cv_metrics and_then_Inl and_then_Inr get_prop_keep)

lemma metric_tiles_view: "metric_tiles eng (contract_view res) = metric_tiles eng res"
  by (simp add: metric_tiles_def cv_metric_view)

lemma keys_contract_view:
  "set (keys_of (contract_view res))
     \<subseteq> {''historical_actual'', ''forecast_data'', ''components'', ''cv_metrics''}"
  by (cases res) (auto simp: contract_view_def)


lemma chart_of_actuals:
  "traverse (xy ''date'' ''actual'') (map encode_actual ps) =
     Inr (map (\<lambda>p. (JStr (ap_date p), JNum (ap_actual p))) ps)"
  by (simp add: traverse_map xy_def encode_actual_def traverse_total)

lemma chart_of_forecast:
  "traverse (xy ''date'' ''predicted'') (map encode_forecast ps) =
     Inr (map (\<lambda>p. (JStr (fp_date p), JNum (fp_predicted p))) ps)"
  "traverse (xy ''date'' ''upper'') (map encode_forecast ps) =
     Inr (map (\<lambda>p. (JStr (fp_date p), JNum (fp_upper p))) ps)"
  "traverse (xy ''date'' ''lower'') (map encode_forecast ps) =
     Inr (map (\<lambda>p. (JStr (fp_date p), JNum (fp_lower p))) ps)"
  by (simp_all add: traverse_map xy_def encode_forecast_def traverse_total)

lemma chart_of_series:
  "array_map (xy ''date'' ''value'') (encode_series ps) = Inr (component_points ps)"
  by (simp add: encode_series_def traverse_map xy_def encode_component_point_def traverse_total
      component_points_def)

lemma truthy_encode_series [simp]: "truthy (encode_series ps)"
  by (simp add: encode_series_def)

lemma encoded_fields:
  "get_prop (encode_result fr) ''historical_actual'' =
     Inr (JArr (map encode_actual (r_historical_actual fr)))"
  "get_prop (encode_result fr) ''forecast_data'' =
     Inr (JArr (map encode_forecast (r_forecast_data fr)))"
  "get_prop (encode_result fr) ''components'' = Inr (encode_components (r_components fr))"
  "get_prop (encode_result fr) ''cv_metrics'' = Inr (encode_cv_metrics (r_cv_metrics fr))"
  "truthy (encode_result fr)"
  by (simp_all add: encode_result_def)

lemma encoded_components:
  "get_prop (encode_components c) ''trend'' = Inr (encode_series (c_trend c))"
  "get_prop (encode_components c) ''yearly'' =
     Inr (case c_yearly c of None \<Rightarrow> JUndefined | Some ys \<Rightarrow> encode_series ys)"
  "get_prop (encode_components c) ''extra_regressors'' =
     Inr (case c_extra_regressors c of
            None \<Rightarrow> JUndefined
          | Some ers \<Rightarrow> JObj (map (\<lambda>(name, ps). (name, encode_series ps)) ers))"
  "truthy (encode_components c)"
  by (simp_all add: encode_components_def split: option.splits)

lemma encoded_cv_metrics:
  "get_prop (encode_cv_metrics m) ''mape'' = Inr (JNum (cv_mape m))"
  "get_prop (encode_cv_metrics m) ''mae'' = Inr (JNum (cv_mae m))"
  "get_prop (encode_cv_metrics m) ''rmse'' = Inr (JNum (cv_rmse m))"
  "get_prop (encode_cv_metrics m) ''coverage'' =
     Inr (case cv_coverage m of None \<Rightarrow> JUndefined | Some c \<Rightarrow> JNum c)"
  by (simp_all add: encode_cv_metrics_def split: option.splits)

lemma charts_of_entries:
  "traverse (\<lambda>(varName, data).
       and_then (array_map (xy ''date'' ''value'') data) (\<lambda>points. Inr (varName, points)))
     (map (\<lambda>(name, ps). (name, encode_series ps)) ers)
   = Inr (map (\<lambda>(name, ps). (name, component_points ps)) ers)"
  by (induction ers) (auto simp: chart_of_series)

lemma forecast_chart_of_contract:
  "prepareForecastChartData (encode_result fr) =
     Inr [(''Actual'', map (\<lambda>p. (JStr (ap_date p), JNum (ap_actual p))) (r_historical_actual fr)),
          (''Predicted'',
             map (\<lambda>p. (JStr (fp_date p), JNum (fp_predicted p))) (r_forecast_data fr))]"
  by (simp add: prepareForecastChartData_def encoded_fields chart_of_actuals chart_of_forecast)

lemma ciData_of_contract:
  "ciData (encode_result fr) =
     Inr (Some (map (\<lambda>p. (JStr (fp_date p), JNum (fp_upper p))) (r_forecast_data fr),
                map (\<lambda>p. (JStr (fp_date p), JNum (fp_lower p))) (r_forecast_data fr)))"
  by (simp add: ciData_def encoded_fields chart_of_forecast)

lemma trend_chart_of_contract:
  "prepareComponentChartData ''trend'' (encode_result fr) =
     Inr [(''trend'', component_points (c_trend (r_components fr)))]"
  by (simp add: prepareComponentChartData_def encoded_fields encoded_components chart_of_series)

lemma yearly_chart_of_contract:
  "prepareComponentChartData ''yearly'' (encode_result fr) =
     (case c_yearly (r_components fr) of
        None \<Rightarrow> Inr []
      | Some ys \<Rightarrow> Inr [(''yearly'', component_points ys)])"
  by (simp add: prepareComponentChartData_def encoded_fields encoded_components chart_of_series
      split: option.splits)

lemma extra_regressors_of_contract:
  "extra_regressors_of (encode_result fr) =
     Inr (case c_extra_regressors (r_components fr) of
            None \<Rightarrow> JUndefined
          | Some ers \<Rightarrow> JObj (map (\<lambda>(name, ps). (name, encode_series ps)) ers))"
  by (simp add: extra_regressors_of_def encoded_fields encoded_components)

lemma extra_charts_of_contract:
  "extra_regressor_charts (encode_result fr) =
     (case c_extra_regressors (r_components fr) of
        None \<Rightarrow> Inr []
      | Some ers \<Rightarrow> Inr (map (\<lambda>(name, ps). (name, component_points ps)) ers))"
  by (simp add: extra_regressor_charts_def extra_regressors_of_contract charts_of_entries
      split: option.splits)

lemma tab_labels_of_contract:
  "tab_labels (encode_result fr) =
     Inr ([''Forecast'', ''Trend'', ''Yearly Seasonality'']
          @ (if c_extra_regressors (r_components fr) = None then [] else [''Extra Regressors'']))"
  by (simp add: tab_labels_def extra_regressors_of_contract split: option.splits)

lemma metric_tiles_of_contract:
  "metric_tiles eng (encode_result fr) =
     Inr [(''MAPE'', percent_text eng (JNum (cv_mape (r_cv_metrics fr))) 2 @ ''%''),
          (''MAE'', fixed_text eng (cv_mae (r_cv_metrics fr)) 2),
          (''RMSE'', fixed_text eng (cv_rmse (r_cv_metrics fr)) 2),
          (''Coverage'',
             coverage_text eng
               (case cv_coverage (r_cv_metrics fr) of None \<Rightarrow> JUndefined | Some c \<Rightarrow> JNum c))]"
  by (simp add: metric_tiles_def cv_metric_def encoded_fields encoded_cv_metrics)




section \<open>The coverage tile\<close>

lemma percent_not_na: "s @ ''%'' \<noteq> ''N/A''"
proof
  assume "s @ ''%'' = ''N/A''"
  then have "last (s @ ''%'') = last ''N/A''" by simp
  then show False by simp
qed

lemma coverage_text_na: "(coverage_text eng c = ''N/A'') = (\<not> truthy c)"
  by (simp add: coverage_text_def percent_not_na)

lemma metric_tiles_of_numbers:
  assumes "get_prop res ''cv_metrics'' = Inr cv"
    and "get_prop cv ''mape'' = Inr mape"
    and "get_prop cv ''mae'' = Inr (JNum mae)"
    and "get_prop cv ''rmse'' = Inr (JNum rmse)"
    and "get_prop cv ''coverage'' = Inr c"
  shows "metric_tiles eng res =
       Inr [(''MAPE'', percent_text eng mape 2 @ ''%''),
            (''MAE'', fixed_text eng mae 2),
            (''RMSE'', fixed_text eng rmse 2),
            (''Coverage'', coverage_text eng c)]"
  using assms by (simp add: metric_tiles_def cv_metric_def)

text \<open>
  C8: whenever the metrics panel can be rendered (\<open>cv_metrics\<close> is there and its \<open>mae\<close>
  and \<open>rmse\<close> are numbers), it is rendered with its four tiles, and the Coverage tile shows
  \<^verbatim>\<open>N/A\<close> exactly when \<open>cv_metrics.coverage\<close> is falsy; so a coverage of exactly 0 shows
  \<^verbatim>\<open>N/A\<close>, as an absent coverage does, and every nonzero coverage shows a percentage.
\<close>

theorem coverage_tile_falsy:
  assumes "get_prop res ''cv_metrics'' = Inr cv"
    and "get_prop cv ''mape'' = Inr mape"
    and "get_prop cv ''mae'' = Inr (JNum mae)"
    and "get_prop cv ''rmse'' = Inr (JNum rmse)"
    and "get_prop cv ''coverage'' = Inr c"
  shows "metric_tiles eng res =
       Inr [(''MAPE'', percent_text eng mape 2 @ ''%''),
            (''MAE'', fixed_text eng mae 2),
            (''RMSE'', fixed_text eng rmse 2),
            (''Coverage'', coverage_text eng c)]
    \<and> tile_text ''Coverage'' (metric_tiles eng res) = Some (coverage_text eng c)
    \<and> (tile_text ''Coverage'' (metric_tiles eng res) = Some ''N/A'') = (\<not> truthy c)
    \<and> (c = JNum 0 \<or> c = JUndefined \<longrightarrow>
          tile_text ''Coverage'' (metric_tiles eng res) = Some ''N/A'')
    \<and> (\<forall>q. c = JNum q \<and> q \<noteq> 0 \<longrightarrow>
          tile_text ''Coverage'' (metric_tiles eng res)
            = Some (percent_text eng (JNum q) 1 @ ''%''))"
proof -
  note tiles = metric_tiles_of_numbers [OF assms, of eng]
  have tile: "tile_text ''Coverage'' (metric_tiles eng res) = Some (coverage_text eng c)"
    unfolding tiles by (simp add: tile_text_def)
  have "c = JNum 0 \<or> c = JUndefined \<longrightarrow> coverage_text eng c = ''N/A''"
    by (auto simp: coverage_text_def)
  moreover have "\<forall>q. c = JNum q \<and> q \<noteq> 0 \<longrightarrow>
      coverage_text eng c = percent_text eng (JNum q) 1 @ ''%''"
    by (simp add: coverage_text_def)
  ultimately show ?thesis
    using tiles coverage_text_na [of eng c] unfolding tile by simp
qed

theorem coverage_tile_falsy_witness:
  "metric_tiles sample_engine (encode_result sample_result) =
     Inr [(''MAPE'', ''<percent>%''), (''MAE'', ''<fixed>''), (''RMSE'', ''<fixed>''),
          (''Coverage'', ''N/A'')]
   \<and> metric_tiles sample_engine (encode_result bare_result) =
     Inr [(''MAPE'', ''<percent>%''), (''MAE'', ''<fixed>''), (''RMSE'', ''<fixed>''),
          (''Coverage'', ''N/A'')]
   \<and> metric_tiles sample_engine (encode_result covered_result) =
     Inr [(''MAPE'', ''<percent>%''), (''MAE'', ''<fixed>''), (''RMSE'', ''<fixed>''),
          (''Coverage'', ''<percent>%'')]
   \<and> tile_text ''Coverage'' (metric_tiles sample_engine (encode_result sample_result))
       = Some ''N/A''
   \<and> tile_text ''Coverage'' (metric_tiles sample_engine (encode_result bare_result))
       = Some ''N/A''
   \<and> tile_text ''Coverage'' (metric_tiles sample_engine (encode_result covered_result))
       = Some ''<percent>%''"
proof -
  have cv: "get_prop (encode_result fr) ''cv_metrics'' = Inr (encode_cv_metrics (r_cv_metrics fr))"
    for fr
    by (rule encoded_fields)
  have zero: "get_prop (encode_cv_metrics (r_cv_metrics sample_result)) ''mape'' = Inr (JNum (1 / 10))"
      "get_prop (encode_cv_metrics (r_cv_metrics sample_result)) ''mae'' = Inr (JNum 3)"
      "get_prop (encode_cv_metrics (r_cv_metrics sample_result)) ''rmse'' = Inr (JNum 4)"
      "get_prop (encode_cv_metrics (r_cv_metrics sample_result)) ''coverage'' = Inr (JNum 0)"
    by (simp_all add: encoded_cv_metrics sample_result_def)
  have none: "get_prop (encode_cv_metrics (r_cv_metrics bare_result)) ''mape'' = Inr (JNum (1 / 10))"
      "get_prop (encode_cv_metrics (r_cv_metrics bare_result)) ''mae'' = Inr (JNum 3)"
      "get_prop (encode_cv_metrics (r_cv_metrics bare_result)) ''rmse'' = Inr (JNum 4)"
      "get_prop (encode_cv_metrics (r_cv_metrics bare_result)) ''coverage'' = Inr JUndefined"
    by (simp_all add: encoded_cv_metrics bare_result_def)
  have most: "get_prop (encode_cv_metrics (r_cv_metrics covered_result)) ''mape'' = Inr (JNum (1 / 10))"
      "get_prop (encode_cv_metrics (r_cv_metrics covered_result)) ''mae'' = Inr (JNum 3)"
      "get_prop (encode_cv_metrics (r_cv_metrics covered_result)) ''rmse'' = Inr (JNum 4)"
      "get_prop (encode_cv_metrics (r_cv_metrics covered_result)) ''coverage'' = Inr (JNum (9 / 10))"
    by (simp_all add: encoded_cv_metrics covered_result_def)
  note Z = coverage_tile_falsy [OF cv zero, of sample_engine]
  note N = coverage_tile_falsy [OF cv none, of sample_engine]
  note M = coverage_tile_falsy [OF cv most, of sample_engine]
  have texts: "coverage_text sample_engine (JNum 0) = ''N/A''"
      "coverage_text sample_engine JUndefined = ''N/A''"
      "coverage_text sample_engine (JNum (9 / 10)) = ''<percent>%''"
      "percent_text sample_engine v 2 @ ''%'' = ''<percent>%''"
      "fixed_text sample_engine q 2 = ''<fixed>''" for v q
    by (simp_all add: coverage_text_def sample_engine_def)
  have z1: "metric_tiles sample_engine (encode_result sample_result) =
     Inr [(''MAPE'', ''<percent>%''), (''MAE'', ''<fixed>''), (''RMSE'', ''<fixed>''),
          (''Coverage'', ''N/A'')]"
    using Z [THEN conjunct1] by (simp only: texts)
  have z2: "tile_text ''Coverage'' (metric_tiles sample_engine (encode_result sample_result))
       = Some ''N/A''"
    using Z [THEN conjunct2, THEN conjunct1] by (simp only: texts)
  have n1: "metric_tiles sample_engine (encode_result bare_result) =
     Inr [(''MAPE'', ''<percent>%''), (''MAE'', ''<fixed>''), (''RMSE'', ''<fixed>''),
          (''Coverage'', ''N/A'')]"
    using N [THEN conjunct1] by (simp only: texts)
  have n2: "tile_text ''Coverage'' (metric_tiles sample_engine (encode_result bare_result))
       = Some ''N/A''"
    using N [THEN conjunct2, THEN conjunct1] by (simp only: texts)
  have m1: "metric_tiles sample_engine (encode_result covered_result) =
     Inr [(''MAPE'', ''<percent>%''), (''MAE'', ''<fixed>''), (''RMSE'', ''<fixed>''),
          (''Coverage'', ''<percent>%'')]"
    using M [THEN conjunct1] by (simp only: texts)
  have m2: "tile_text ''Coverage'' (metric_tiles sample_engine (encode_result covered_result))
       = Some ''<percent>%''"
    using M [THEN conjunct2, THEN conjunct1] by (simp only: texts)
  from z1 n1 m1 z2 n2 m2 show ?thesis by blast
qed

section \<open>The extra-regressors entry and its tab\<close>

lemma keys_encode_components:
  "keys_of (encode_components c) =
     [''trend''] @ (if c_yearly c = None then [] else [''yearly''])
       @ (if c_extra_regressors c = None then [] else [''extra_regressors''])"
  by (simp add: encode_components_def split: option.splits)

lemma extra_key_present:
  "(''extra_regressors'' \<in> set (keys_of (encode_components c))) = (c_extra_regressors c \<noteq> None)"
  by (simp add: keys_encode_components)

lemma decompose_extra:
  "c_extra_regressors (decompose m y selected dates) =
     (if selected = [] then None
      else Some (map (\<lambda>name. (name, series_over dates (contribution_at m name))) selected))"
  by (simp add: decompose_def)

text \<open>
  C4: for a valid request (the selected regressor names differ from each other), with the
  components the decomposer gives: when no regressor is selected the \<open>components\<close> object
  has no \<open>extra_regressors\<close> entry; when some are, \<open>extra_regressors\<close> has exactly one
  entry for each selected name and none for any other; and the tab bar has the Extra
  Regressors tab if and only if the \<open>extra_regressors\<close> key is present on
  \<open>result.components\<close>, the panel under it showing one chart per selected name.
\<close>

theorem extra_regressors_entry_and_tab:
  assumes "distinct selected"
    and "r_components fr = decompose m yearly_enabled selected dates"
  shows "(selected = [] \<longrightarrow>
            ''extra_regressors'' \<notin> set (keys_of (encode_components (r_components fr)))
            \<and> get_prop (encode_components (r_components fr)) ''extra_regressors'' = Inr JUndefined)
    \<and> (selected \<noteq> [] \<longrightarrow>
          (\<exists>entries. get_prop (encode_components (r_components fr)) ''extra_regressors''
                        = Inr (JObj entries)
             \<and> map fst entries = selected \<and> distinct (map fst entries)))
    \<and> tab_labels (encode_result fr) =
        Inr ([''Forecast'', ''Trend'', ''Yearly Seasonality'']
             @ (if ''extra_regressors'' \<in> set (keys_of (encode_components (r_components fr)))
                then [''Extra Regressors''] else []))
    \<and> (\<exists>charts. extra_regressor_charts (encode_result fr) = Inr charts
          \<and> map fst charts = selected)"
proof -
  let ?c = "r_components fr"
  have extra: "c_extra_regressors ?c =
     (if selected = [] then None
      else Some (map (\<lambda>name. (name, series_over dates (contribution_at m name))) selected))"
    using assms(2) by (simp add: decompose_extra)
  have none: "selected = [] \<longrightarrow>
      ''extra_regressors'' \<notin> set (keys_of (encode_components ?c))
      \<and> get_prop (encode_components ?c) ''extra_regressors'' = Inr JUndefined"
    using extra by (simp add: extra_key_present encoded_components)
  have some: "selected \<noteq> [] \<longrightarrow>
      (\<exists>entries. get_prop (encode_components ?c) ''extra_regressors'' = Inr (JObj entries)
         \<and> map fst entries = selected \<and> distinct (map fst entries))"
    using extra assms(1) by (simp add: encoded_components comp_def)
  have tabs: "tab_labels (encode_result fr) =
        Inr ([''Forecast'', ''Trend'', ''Yearly Seasonality'']
             @ (if ''extra_regressors'' \<in> set (keys_of (encode_components ?c))
                then [''Extra Regressors''] else []))"
    by (simp add: tab_labels_of_contract extra_key_present)
  have charts: "\<exists>charts. extra_regressor_charts (encode_result fr) = Inr charts
          \<and> map fst charts = selected"
    using extra by (simp add: extra_charts_of_contract comp_def)
  from none some tabs charts show ?thesis by blast
qed

theorem extra_regressors_entry_and_tab_witness:
  "distinct [''total_population'']
   \<and> r_components population_result =
       decompose sample_model True [''total_population''] [''2023-01-01'', ''2023-02-01'']
   \<and> tab_labels (encode_result population_result) =
       Inr [''Forecast'', ''Trend'', ''Yearly Seasonality'', ''Extra Regressors'']
   \<and> r_components plain_result = decompose sample_model True [] [''2023-01-01'', ''2023-02-01'']
   \<and> tab_labels (encode_result plain_result) = Inr [''Forecast'', ''Trend'', ''Yearly Seasonality'']
   \<and> get_prop (encode_components (r_components plain_result)) ''extra_regressors'' = Inr JUndefined"
proof -
  have d1: "distinct [''total_population'']" and d0: "distinct ([] :: string list)"
    by simp_all
  have p: "r_components population_result =
       decompose sample_model True [''total_population''] [''2023-01-01'', ''2023-02-01'']"
    by (simp add: population_result_def)
  have q: "r_components plain_result = decompose sample_model True [] [''2023-01-01'', ''2023-02-01'']"
    by (simp add: plain_result_def)
  note P = extra_regressors_entry_and_tab [OF d1 p]
  note Q = extra_regressors_entry_and_tab [OF d0 q]
  have kp: "''extra_regressors'' \<in> set (keys_of (encode_components (r_components population_result)))"
    by (simp add: p decompose_def encode_components_def)
  from Q have kq: "''extra_regressors'' \<notin> set (keys_of (encode_components (r_components plain_result)))"
    and uq: "get_prop (encode_components (r_components plain_result)) ''extra_regressors'' = Inr JUndefined"
    by blast+
  from P kp have tp: "tab_labels (encode_result population_result) =
       Inr [''Forecast'', ''Trend'', ''Yearly Seasonality'', ''Extra Regressors'']"
    by simp
  from Q kq have tq: "tab_labels (encode_result plain_result) =
       Inr [''Forecast'', ''Trend'', ''Yearly Seasonality'']"
    by simp
  from d1 p q tp tq uq show ?thesis by blast
qed

section \<open>The dates of the forecast\<close>

lemma set_insert_date: "set (insert_date d xs) = insert d (set xs)"
  by (induction xs) auto

lemma sorted_insert_date:
  "sorted_wrt (<) xs \<Longrightarrow> sorted_wrt (<) (insert_date d xs)"
  by (induction xs) (auto simp: set_insert_date)

lemma set_date_union: "set (date_union ds) = set ds"
  by (induction ds) (simp_all add: date_union_def set_insert_date)

lemma sorted_date_union: "sorted_wrt (<) (date_union ds)"
  by (induction ds) (simp_all add: date_union_def sorted_insert_date)

lemma distinct_date_union: "distinct (date_union ds)"
  using sorted_date_union [of ds] by (simp add: strict_sorted_iff)

lemma fold_max_ge: "(d :: int) \<le> fold max ds d \<and> (\<forall>x \<in> set ds. x \<le> fold max ds d)"
proof (induction ds arbitrary: d)
  case Nil
  then show ?case by simp
next
  case (Cons x xs)
  have a: "max x d \<le> fold max xs (max x d)" and b: "\<forall>y \<in> set xs. y \<le> fold max xs (max x d)"
    using Cons.IH [of "max x d"] by simp_all
  from a have "d \<le> fold max xs (max x d)" and "x \<le> fold max xs (max x d)"
    by simp_all
  with b show ?case by simp
qed

lemma fold_max_mem: "fold max ds (d :: int) \<in> insert d (set ds)"
proof (induction ds arbitrary: d)
  case Nil
  then show ?case by simp
next
  case (Cons x xs)
  have "fold max xs (max x d) \<in> insert (max x d) (set xs)"
    by (rule Cons.IH)
  moreover have "max x d = x \<or> max x d = d"
    by (auto simp: max_def)
  ultimately show ?case by auto
qed

lemma latest_Some:
  assumes "latest ds = Some l"
  shows "l \<in> set ds \<and> (\<forall>d \<in> set ds. d \<le> l)"
proof (cases ds)
  case Nil
  with assms show ?thesis by simp
next
  case (Cons x xs)
  with assms have l: "l = fold max xs x" by simp
  show ?thesis
    unfolding l Cons using fold_max_ge [of x xs] fold_max_mem [of xs x] by auto
qed

lemma latest_nonempty: "ds \<noteq> [] \<Longrightarrow> \<exists>l. latest ds = Some l"
  by (cases ds) simp_all

lemma set_future_horizon: "set (future_horizon l h) = {l <.. l + int h}"
proof -
  have "set (future_horizon l h) = (\<lambda>k. l + int k) ` {1..<Suc h}"
    by (simp only: future_horizon_def set_map set_upt)
  also have "\<dots> = {l <.. l + int h}"
  proof (rule set_eqI)
    fix d
    show "(d \<in> (\<lambda>k. l + int k) ` {1..<Suc h}) = (d \<in> {l <.. l + int h})"
    proof
      assume "d \<in> (\<lambda>k. l + int k) ` {1..<Suc h}"
      then show "d \<in> {l <.. l + int h}" by auto
    next
      assume d: "d \<in> {l <.. l + int h}"
      then have "nat (d - l) \<in> {1..<Suc h}" and "d = l + int (nat (d - l))"
        by auto
      then show "d \<in> (\<lambda>k. l + int k) ` {1..<Suc h}" by blast
    qed
  qed
  finally show ?thesis .
qed

text \<open>
  C6: for a valid configuration (a history of at least two distinct dates, any horizon) the
  assembler returns a result; the dates of its \<open>forecast_data\<close> are strictly ascending,
  none occurs twice, and together they are exactly the historical dates and the generated
  future-horizon dates, which are the \<open>horizon_periods\<close> periods after the latest
  historical date.
\<close>

theorem forecast_dates_union:
  assumes "2 \<le> length (remdups (map fst history))"
  shows "\<exists>fd last_date.
      assemble_forecast evaluate history horizon_periods = Inr fd
    \<and> latest (map fst history) = Some last_date
    \<and> last_date \<in> fst ` set history
    \<and> (\<forall>d \<in> fst ` set history. d \<le> last_date)
    \<and> horizon_dates history horizon_periods = future_horizon last_date horizon_periods
    \<and> set (horizon_dates history horizon_periods) = {last_date <.. last_date + int horizon_periods}
    \<and> sorted_wrt (<) (map fst fd)
    \<and> distinct (map fst fd)
    \<and> set (map fst fd) = fst ` set history \<union> set (horizon_dates history horizon_periods)"
proof -
  from assms have "map fst history \<noteq> []" by auto
  then obtain l where l: "latest (map fst history) = Some l"
    using latest_nonempty by blast
  let ?dates = "date_union (map fst history @ horizon_dates history horizon_periods)"
  let ?fd = "map (\<lambda>d. (d, evaluate d)) ?dates"
  have fd: "assemble_forecast evaluate history horizon_periods = Inr ?fd"
    using assms by (simp add: assemble_forecast_def)
  have dates: "map fst ?fd = ?dates"
    by (simp add: comp_def)
  have hz: "horizon_dates history horizon_periods = future_horizon l horizon_periods"
    using l by (simp add: horizon_dates_def)
  have mem: "l \<in> fst ` set history" and top: "\<forall>d \<in> fst ` set history. d \<le> l"
    using latest_Some [OF l] by simp_all
  have s1: "sorted_wrt (<) (map fst ?fd)"
    unfolding dates by (rule sorted_date_union)
  have s2: "distinct (map fst ?fd)"
    unfolding dates by (rule distinct_date_union)
  have s3: "set (map fst ?fd) = fst ` set history \<union> set (horizon_dates history horizon_periods)"
    unfolding dates by (simp add: set_date_union)
  have s4: "set (horizon_dates history horizon_periods) = {l <.. l + int horizon_periods}"
    unfolding hz by (rule set_future_horizon)
  from fd l mem top hz s4 s1 s2 s3 show ?thesis
    by blast
qed

theorem forecast_dates_union_witness:
  "2 \<le> length (remdups (map fst [(3 :: int, 5 :: rat), (4, 6), (6, 7)]))
   \<and> assemble_forecast (\<lambda>d. (1, 0, 2)) [(3, 5), (4, 6), (6, 7)] 2 =
       Inr [(3, 1, 0, 2), (4, 1, 0, 2), (6, 1, 0, 2), (7, 1, 0, 2), (8, 1, 0, 2)]
   \<and> sorted_wrt (<) (map fst [(3 :: int, 1 :: rat, 0 :: rat, 2 :: rat), (4, 1, 0, 2), (6, 1, 0, 2), (7, 1, 0, 2), (8, 1, 0, 2)])"
proof -
  have h: "2 \<le> length (remdups (map fst [(3 :: int, 5 :: rat), (4, 6), (6, 7)]))"
    by simp
  have v: "assemble_forecast (\<lambda>d. (1, 0, 2)) [(3, 5), (4, 6), (6, 7)] 2 =
       Inr [(3, 1, 0, 2), (4, 1, 0, 2), (6, 1, 0, 2), (7, 1, 0, 2), (8, 1, 0, 2)]"
    by (simp add: assemble_forecast_def horizon_dates_def future_horizon_def date_union_def
        upt_rec)
  from forecast_dates_union [OF h, of "\<lambda>d. (1, 0, 2)" 2] v
  have "sorted_wrt (<) (map fst [(3 :: int, 1 :: rat, 0 :: rat, 2 :: rat), (4, 1, 0, 2), (6, 1, 0, 2), (7, 1, 0, 2), (8, 1, 0, 2)])"
    by auto
  with h v show ?thesis by blast
qed

section \<open>Configuration validation\<close>

lemma check_eq_Inr: "(check r f = Inr y) = (\<exists>x. r = Inr x \<and> f x = Inr y)"
  by (cases r) (simp_all add: check_def)

lemma positive_scale_Inr: "(positive_scale field v = Inr q) = (v = Finite q \<and> 0 < q)"
  by (cases v) auto

lemma open_unit_Inr: "(open_unit field v = Inr q) = (v = Finite q \<and> 0 < q \<and> q < 1)"
  by (cases v) auto

lemma find_unknown_None: "(find (\<lambda>n. n \<notin> set known) names = None) = (set names \<subseteq> set known)"
  by (auto simp: find_None_iff)

lemma known_names_Inr:
  "(known_names known names = Inr ns) = (set names \<subseteq> set known \<and> ns = remdups names)"
  by (cases "find (\<lambda>n. n \<notin> set known) names")
    (auto simp: known_names_def find_unknown_None [symmetric])

lemma find_first_unknown:
  "set names \<subseteq> set known \<Longrightarrow> n \<notin> set known \<Longrightarrow>
   find (\<lambda>n. n \<notin> set known) (names @ [n]) = Some n"
  by (induction names) simp_all

lemma validate_accepts:
  assumes "validate known raw = Inr cfg"
  shows "(\<exists>g. parse_growth (raw_growth raw) = Inr g)
    \<and> (\<exists>m. parse_mode (raw_seasonality_mode raw) = Inr m)
    \<and> set (raw_extra_vars raw) \<subseteq> set known
    \<and> (\<exists>q. raw_changepoint_prior_scale raw = Finite q \<and> 0 < q)
    \<and> (\<exists>q. raw_seasonality_prior_scale raw = Finite q \<and> 0 < q)
    \<and> (\<exists>q. raw_regressor_prior_scale raw = Finite q \<and> 0 < q)
    \<and> (\<exists>q. raw_interval_width raw = Finite q \<and> 0 < q \<and> q < 1)
    \<and> 0 \<le> raw_horizon_periods raw"
  using assms
  by (auto simp: validate_def check_eq_Inr positive_scale_Inr open_unit_Inr known_names_Inr
      split: if_splits)

lemma faulty_rejected:
  assumes "faulty known raw"
  shows "\<exists>e. validate known raw = Inl e"
proof (cases "validate known raw")
  case (Inl e)
  then show ?thesis by blast
next
  case (Inr cfg)
  from validate_accepts [OF Inr] assms have False
    by (auto simp: faulty_def list_ex_iff)
  then show ?thesis ..
qed


lemma find_unknown_at:
  "set xs \<subseteq> set known \<Longrightarrow> n \<notin> set known \<Longrightarrow>
   find (\<lambda>n. n \<notin> set known) (xs @ n # ys) = Some n"
  by (induction xs) simp_all

lemma known_names_unknown_at:
  "set xs \<subseteq> set known \<Longrightarrow> n \<notin> set known \<Longrightarrow>
   known_names known (xs @ n # ys) = Inl (UnknownRegressor n)"
  by (simp add: known_names_def find_unknown_at)

lemma known_names_some_unknown:
  assumes "\<not> set names \<subseteq> set known"
  shows "\<exists>n. n \<in> set names \<and> n \<notin> set known
    \<and> known_names known names = Inl (UnknownRegressor n)"
proof (cases "find (\<lambda>n. n \<notin> set known) names")
  case None
  with assms show ?thesis by (simp add: find_unknown_None)
next
  case (Some n)
  then have "n \<in> set names \<and> n \<notin> set known"
    by (auto simp: find_Some_iff)
  with Some show ?thesis by (simp add: known_names_def)
qed

lemma known_names_subset:
  "set names \<subseteq> set known \<Longrightarrow> known_names known names = Inr (remdups names)"
  by (simp add: known_names_Inr)

lemma known_names_unknown:
  "set names \<subseteq> set known \<Longrightarrow> n \<notin> set known \<Longrightarrow>
   known_names known (names @ [n]) = Inl (UnknownRegressor n)"
  by (simp add: known_names_def find_first_unknown)

text \<open>
  C7: the validator accepts no raw configuration whose interval width is 0 or 1, one of
  whose prior scales is negative, or one of whose regressor names is unknown to the store.
  Put into a configuration it accepts, each of the four faults is refused with an error of
  its own: the two interval widths and the negative scale with a validation failure naming
  the field and the refused value, the unknown name with \<open>UnknownRegressor\<close>; the four
  errors differ from each other. The unknown name is refused so wherever it stands in the
  list, and in any configuration whose \<open>growth\<close> is valid.
\<close>

theorem validator_rejections:
  assumes base: "validate known raw = Inr cfg"
  shows "(\<forall>raw'. faulty known raw' \<longrightarrow> (\<exists>e. validate known raw' = Inl e))
    \<and> validate known (raw\<lparr>raw_interval_width := Finite 0\<rparr>)
        = Inl (ValidationError ''interval_width'' (Number (Finite 0)))
    \<and> validate known (raw\<lparr>raw_interval_width := Finite 1\<rparr>)
        = Inl (ValidationError ''interval_width'' (Number (Finite 1)))
    \<and> (\<forall>q < 0. validate known (raw\<lparr>raw_changepoint_prior_scale := Finite q\<rparr>)
                 = Inl (ValidationError ''changepoint_prior_scale'' (Number (Finite q)))
             \<and> validate known (raw\<lparr>raw_seasonality_prior_scale := Finite q\<rparr>)
                 = Inl (ValidationError ''seasonality_prior_scale'' (Number (Finite q)))
             \<and> validate known (raw\<lparr>raw_regressor_prior_scale := Finite q\<rparr>)
                 = Inl (ValidationError ''regressor_prior_scale'' (Number (Finite q))))
    \<and> (\<forall>n. n \<notin> set known \<longrightarrow>
          validate known (raw\<lparr>raw_extra_vars := raw_extra_vars raw @ [n]\<rparr>)
            = Inl (UnknownRegressor n))
    \<and> (\<forall>xs ys n. set xs \<subseteq> set known \<and> n \<notin> set known \<longrightarrow>
          validate known (raw\<lparr>raw_extra_vars := xs @ n # ys\<rparr>) = Inl (UnknownRegressor n))
    \<and> (\<forall>raw' g. parse_growth (raw_growth raw') = Inr g
            \<and> \<not> set (raw_extra_vars raw') \<subseteq> set known \<longrightarrow>
          (\<exists>n. n \<in> set (raw_extra_vars raw') \<and> n \<notin> set known
             \<and> validate known raw' = Inl (UnknownRegressor n)))
    \<and> (\<forall>field q n. q < 0 \<longrightarrow>
          distinct [ValidationError ''interval_width'' (Number (Finite 0)),
                    ValidationError ''interval_width'' (Number (Finite 1)),
                    ValidationError field (Number (Finite q)),
                    UnknownRegressor n])"
proof -
  from validate_accepts [OF base] obtain g m a b c w where
    g: "parse_growth (raw_growth raw) = Inr g" and
    m: "parse_mode (raw_seasonality_mode raw) = Inr m" and
    names: "set (raw_extra_vars raw) \<subseteq> set known" and
    a: "raw_changepoint_prior_scale raw = Finite a" "0 < a" and
    b: "raw_seasonality_prior_scale raw = Finite b" "0 < b" and
    c: "raw_regressor_prior_scale raw = Finite c" "0 < c" and
    w: "raw_interval_width raw = Finite w" "0 < w" "w < 1"
    by blast
  note kn = known_names_subset [OF names]
  have faults: "\<forall>raw'. faulty known raw' \<longrightarrow> (\<exists>e. validate known raw' = Inl e)"
    using faulty_rejected by blast
  have w0: "validate known (raw\<lparr>raw_interval_width := Finite 0\<rparr>)
        = Inl (ValidationError ''interval_width'' (Number (Finite 0)))"
    by (simp add: validate_def check_def g m kn a b c)
  have w1: "validate known (raw\<lparr>raw_interval_width := Finite 1\<rparr>)
        = Inl (ValidationError ''interval_width'' (Number (Finite 1)))"
    by (simp add: validate_def check_def g m kn a b c)
  have scales: "validate known (raw\<lparr>raw_changepoint_prior_scale := Finite q\<rparr>)
                 = Inl (ValidationError ''changepoint_prior_scale'' (Number (Finite q)))
             \<and> validate known (raw\<lparr>raw_seasonality_prior_scale := Finite q\<rparr>)
                 = Inl (ValidationError ''seasonality_prior_scale'' (Number (Finite q)))
             \<and> validate known (raw\<lparr>raw_regressor_prior_scale := Finite q\<rparr>)
                 = Inl (ValidationError ''regressor_prior_scale'' (Number (Finite q)))"
    if "q < 0" for q
    using that by (simp add: validate_def check_def g m kn a b c)
  have unknown: "validate known (raw\<lparr>raw_extra_vars := raw_extra_vars raw @ [n]\<rparr>)
            = Inl (UnknownRegressor n)" if "n \<notin> set known" for n
    using known_names_unknown [OF names that] by (simp add: validate_def check_def g)
  have unknown_at: "validate known (raw\<lparr>raw_extra_vars := xs @ n # ys\<rparr>)
            = Inl (UnknownRegressor n)" if "set xs \<subseteq> set known" "n \<notin> set known" for xs ys n
    using known_names_unknown_at [OF that] by (simp add: validate_def check_def g)
  have unknown_any: "\<exists>n. n \<in> set (raw_extra_vars raw') \<and> n \<notin> set known
             \<and> validate known raw' = Inl (UnknownRegressor n)"
    if "parse_growth (raw_growth raw') = Inr g'" "\<not> set (raw_extra_vars raw') \<subseteq> set known"
    for raw' g'
    using known_names_some_unknown [OF that(2)] that(1)
    by (auto simp: validate_def check_def)
  have apart: "distinct [ValidationError ''interval_width'' (Number (Finite 0)),
                    ValidationError ''interval_width'' (Number (Finite 1)),
                    ValidationError field (Number (Finite q)),
                    UnknownRegressor n]" if "q < 0" for field n and q :: rat
    using that by auto
  from faults w0 w1 scales unknown unknown_at unknown_any apart show ?thesis
    by blast
qed

theorem validator_rejections_witness:
  "validate AVAILABLE_EXTRA_VARS default_raw =
     Inr \<lparr> cfg_growth = Linear, cfg_extra_regressor_names = [], cfg_yearly_seasonality = True,
           cfg_seasonality_mode = Additive, cfg_changepoint_prior_scale = 5 / 100,
           cfg_seasonality_prior_scale = 10, cfg_regressor_prior_scale = 5 / 100,
           cfg_interval_width = 95 / 100, cfg_horizon_periods = 12 \<rparr>
   \<and> validate AVAILABLE_EXTRA_VARS (default_raw\<lparr>raw_interval_width := Finite 0\<rparr>)
       = Inl (ValidationError ''interval_width'' (Number (Finite 0)))
   \<and> validate AVAILABLE_EXTRA_VARS (default_raw\<lparr>raw_interval_width := Finite 1\<rparr>)
       = Inl (ValidationError ''interval_width'' (Number (Finite 1)))
   \<and> validate AVAILABLE_EXTRA_VARS (default_raw\<lparr>raw_regressor_prior_scale := Finite (- 1)\<rparr>)
       = Inl (ValidationError ''regressor_prior_scale'' (Number (Finite (- 1))))
   \<and> validate AVAILABLE_EXTRA_VARS
       (default_raw\<lparr>raw_extra_vars := raw_extra_vars default_raw @ [''weather'']\<rparr>)
       = Inl (UnknownRegressor ''weather'')"
proof -
  have base: "validate AVAILABLE_EXTRA_VARS default_raw =
     Inr \<lparr> cfg_growth = Linear, cfg_extra_regressor_names = [], cfg_yearly_seasonality = True,
           cfg_seasonality_mode = Additive, cfg_changepoint_prior_scale = 5 / 100,
           cfg_seasonality_prior_scale = 10, cfg_regressor_prior_scale = 5 / 100,
           cfg_interval_width = 95 / 100, cfg_horizon_periods = 12 \<rparr>"
    by (simp add: validate_def check_def default_raw_def parse_growth_def parse_mode_def
        known_names_def)
  have neg: "(- 1 :: rat) < 0" by simp
  have unk: "''weather'' \<notin> set AVAILABLE_EXTRA_VARS"
    by (simp add: AVAILABLE_EXTRA_VARS_def)
  note T = validator_rejections [OF base]
  from T have 0: "validate AVAILABLE_EXTRA_VARS (default_raw\<lparr>raw_interval_width := Finite 0\<rparr>)
       = Inl (ValidationError ''interval_width'' (Number (Finite 0)))"
    by blast
  from T have 1: "validate AVAILABLE_EXTRA_VARS (default_raw\<lparr>raw_interval_width := Finite 1\<rparr>)
       = Inl (ValidationError ''interval_width'' (Number (Finite 1)))"
    by blast
  from T neg
  have 2: "validate AVAILABLE_EXTRA_VARS (default_raw\<lparr>raw_regressor_prior_scale := Finite (- 1)\<rparr>)
       = Inl (ValidationError ''regressor_prior_scale'' (Number (Finite (- 1))))"
    by blast
  from T unk have 3: "validate AVAILABLE_EXTRA_VARS
       (default_raw\<lparr>raw_extra_vars := raw_extra_vars default_raw @ [''weather'']\<rparr>)
       = Inl (UnknownRegressor ''weather'')"
    by blast
  from base 0 1 2 3 show ?thesis by blast
qed

end
